theory Spec2Isabelle
  imports Main "HOL-Library.Word" "HOL-Library.Signed_Division"
begin

section \<open>github-commit-status-mark: cache expiration, remote identity, credentials\<close>

text \<open>
  The repository holds three revisions of one command-line program:
  \<^verbatim>\<open>src/main.go\<close> (everything inline in \<^verbatim>\<open>main\<close>, the token read from git config only),
  \<^verbatim>\<open>src/unnamed/part_000\<close> (the same logic split into \<^verbatim>\<open>targetRevision\<close>, \<^verbatim>\<open>restoreCache\<close>,
  \<^verbatim>\<open>storeCache\<close>, \<^verbatim>\<open>retrieveAPIToken\<close>) and \<^verbatim>\<open>src/unnamed/part_001\<close> (the table
  \<^verbatim>\<open>statusConfiguration\<close>, \<^verbatim>\<open>restoreState\<close>, \<^verbatim>\<open>saveState\<close>).
  Each is embedded below. What the program calls outside the repository (git, the file
  system, the JSON codec, the URL parser, the netrc reader, the clock, the GitHub client)
  is a field of the record \<open>env\<close> or a small function modelled on the library's source.
\<close>

subsection \<open>Machine integers and Go's map indexing\<close>

type_synonym int64 = "64 word"
type_synonym int32 = "32 word"

text \<open>Go's \<^verbatim>\<open>m[k]\<close> on a map yields the zero value of the element type for a missing key.\<close>

definition index :: "('k \<rightharpoonup> 'v) \<Rightarrow> 'v \<Rightarrow> 'k \<Rightarrow> 'v" where
  "index m zero k = (case m k of None \<Rightarrow> zero | Some v \<Rightarrow> v)"

subsection \<open>The cached entry and the persistent state\<close>

text \<open>
  \<^verbatim>\<open>type revisionEntry struct { Status string; LastModified int64 }\<close> (part_001), named
  \<^verbatim>\<open>programCacheStatus\<close> in main.go and part_000; \<^verbatim>\<open>persistentState\<close> is \<^verbatim>\<open>programCache\<close>
  there. The map \<^verbatim>\<open>Revisions\<close> may be nil: \<open>None\<close>.
\<close>

record revisionEntry =
  Status :: string
  LastModified :: int64

record persistentState =
  Revisions :: "(string \<rightharpoonup> revisionEntry) option"

definition zeroEntry :: revisionEntry where
  "zeroEntry = \<lparr>Status = [], LastModified = 0\<rparr>"

definition zeroState :: persistentState where
  "zeroState = \<lparr>Revisions = None\<rparr>"

text \<open>\<^verbatim>\<open>state.Revisions[rev]\<close>: indexing a nil map reads as indexing an empty one.\<close>

definition lookupRevision :: "persistentState \<Rightarrow> string \<Rightarrow> revisionEntry" where
  "lookupRevision state revision =
     (case Revisions state of None \<Rightarrow> zeroEntry | Some m \<Rightarrow> index m zeroEntry revision)"

subsection \<open>Expiration in seconds (main.go, part_000)\<close>

text \<open>
  \<^verbatim>\<open>var cacheExpirationSeconds = map[string]int64{"": 30, "failure": -1, "pending": 10, "success": -1}\<close>
\<close>

definition cacheExpirationSeconds :: "string \<rightharpoonup> int64" where
  "cacheExpirationSeconds =
     map_of [([], 30), (''failure'', - 1), (''pending'', 10), (''success'', - 1)]"

text \<open>
  main.go 118-119, part_000 169-170:
  \<^verbatim>\<open>expSecs := cacheExpirationSeconds[cachedStatus.Status]\<close>,
  \<^verbatim>\<open>expSecs == -1 || time.Now().Unix() < cachedStatus.LastModified+expSecs\<close>.
  The second argument is \<^verbatim>\<open>time.Now().Unix()\<close>; the addition is Go's wrapping int64 addition
  and the comparison is signed.
\<close>

definition isValidSeconds :: "revisionEntry \<Rightarrow> int64 \<Rightarrow> bool" where
  "isValidSeconds cachedStatus nowUnix =
     (let expSecs = index cacheExpirationSeconds 0 (Status cachedStatus)
      in expSecs = - 1 \<or> nowUnix <s LastModified cachedStatus + expSecs)"

subsection \<open>Go's time package, as far as part_001 uses it\<close>

text \<open>
  Modelled on the source of Go's \<^verbatim>\<open>time\<close> package (not part of this repository): a
  \<^verbatim>\<open>Time\<close> is a count of seconds since January 1, year 1 (int64) and a nanosecond
  offset in [0, 999999999]; \<^verbatim>\<open>Unix(sec, 0)\<close> adds \<^verbatim>\<open>unixToInternal\<close> to \<^verbatim>\<open>sec\<close>;
  \<^verbatim>\<open>Add\<close> adds the whole seconds of the duration and carries the nanoseconds;
  \<^verbatim>\<open>Before\<close> compares seconds, then nanoseconds. A \<^verbatim>\<open>Duration\<close> is an int64 count of
  nanoseconds. All additions wrap, as in the releases of the package current when the
  program was written; later releases clamp the sum in \<^verbatim>\<open>Add\<close> instead, which gives the
  same result whenever the sum does not overflow.
\<close>

record Time =
  sec :: int64
  nsec :: int32

type_synonym Duration = int64

definition unixToInternal :: int64 where
  "unixToInternal = 62135596800"

definition Second :: Duration where
  "Second = 1000000000"

definition quo64 :: "int64 \<Rightarrow> int64 \<Rightarrow> int64" where
  "quo64 a b = word_of_int (sint a sdiv sint b)"

definition rem64 :: "int64 \<Rightarrow> int64 \<Rightarrow> int64" where
  "rem64 a b = word_of_int (sint a smod sint b)"

definition Unix0 :: "int64 \<Rightarrow> Time" where
  "Unix0 s = \<lparr>sec = s + unixToInternal, nsec = 0\<rparr>"

definition toUnix :: "Time \<Rightarrow> int64" where
  "toUnix t = sec t - unixToInternal"

definition Add :: "Time \<Rightarrow> Duration \<Rightarrow> Time" where
  "Add t d =
     (let s = sec t + quo64 d 1000000000;
          n = nsec t + ucast (rem64 d 1000000000)
      in if 1000000000 \<le>s n then \<lparr>sec = s + 1, nsec = n - 1000000000\<rparr>
         else if n <s 0 then \<lparr>sec = s - 1, nsec = n + 1000000000\<rparr>
         else \<lparr>sec = s, nsec = n\<rparr>)"

definition Before :: "Time \<Rightarrow> Time \<Rightarrow> bool" where
  "Before t u = (sec t <s sec u \<or> sec t = sec u \<and> nsec t <s nsec u)"

text \<open>The instant a \<open>Time\<close> stands for, in nanoseconds since the Unix epoch.\<close>

definition unixNanos :: "Time \<Rightarrow> int" where
  "unixNanos t = (sint (sec t) - 62135596800) * 1000000000 + sint (nsec t)"

subsection \<open>The status table (part_001)\<close>

datatype Color = None_color | Red | Yellow | Green

record statusConf =
  mark :: string
  color :: Color
  cacheFor :: Duration

definition statusUnknown :: string where "statusUnknown = []"
definition statusFailure :: string where "statusFailure = ''failure''"
definition statusPending :: string where "statusPending = ''pending''"
definition statusSuccess :: string where "statusSuccess = ''success''"

definition forever :: Duration where
  "forever = - 1"

text \<open>The marks are the UTF-8 bytes of U+2717, U+25CF and U+2713.\<close>

definition markUnknown :: string where "markUnknown = ''?''"
definition markFailure :: string where "markFailure = [CHR 0xE2, CHR 0x9C, CHR 0x97]"
definition markPending :: string where "markPending = [CHR 0xE2, CHR 0x97, CHR 0x8F]"
definition markSuccess :: string where "markSuccess = [CHR 0xE2, CHR 0x9C, CHR 0x93]"

definition statusConfiguration :: "string \<rightharpoonup> statusConf" where
  "statusConfiguration = map_of
     [(statusUnknown, \<lparr>mark = markUnknown, color = None_color, cacheFor = 30 * Second\<rparr>),
      (statusFailure, \<lparr>mark = markFailure, color = Red, cacheFor = forever\<rparr>),
      (statusPending, \<lparr>mark = markPending, color = Yellow, cacheFor = 10 * Second\<rparr>),
      (statusSuccess, \<lparr>mark = markSuccess, color = Green, cacheFor = forever\<rparr>)]"

definition zeroConf :: statusConf where
  "zeroConf = \<lparr>mark = [], color = None_color, cacheFor = 0\<rparr>"

text \<open>
  part_001 181-184 and 267-270:
  \<^verbatim>\<open>conf, ok := statusConfiguration[status]; if !ok { conf = statusConfiguration[statusUnknown] }\<close>
\<close>

definition confOf :: "string \<Rightarrow> statusConf" where
  "confOf status =
     (case statusConfiguration status of
        Some conf \<Rightarrow> conf
      | None \<Rightarrow> index statusConfiguration zeroConf statusUnknown)"

text \<open>
  part_001 189-190:
  \<^verbatim>\<open>exp == forever || time.Now().Before(time.Unix(cachedRevisionEntry.LastModified, 0).Add(exp))\<close>
\<close>

definition isValidDuration :: "revisionEntry \<Rightarrow> Time \<Rightarrow> bool" where
  "isValidDuration cachedRevisionEntry now =
     (let exp = cacheFor (confOf (Status cachedRevisionEntry))
      in exp = forever \<or> Before now (Add (Unix0 (LastModified cachedRevisionEntry)) exp))"

subsection \<open>The collaborators outside the repository\<close>

datatype fatal =
    GitFailed "string list" string
  | OsError string
  | UrlParseError string
  | CouldNotParse string
  | FetchError string
  | NilDereference

record URL =
  Host :: string
  Path :: string
  String :: string

record Machine =
  Name :: string
  Login :: string
  Password :: string

record User =
  HomeDir :: string

record request =
  oauthToken :: "string option"
  insecureSkipVerify :: bool
  baseURL :: "URL option"
  owner :: string
  repo :: string
  ref :: string

text \<open>
  \<open>gitOutput\<close> is \<^verbatim>\<open>cmd.Output()\<close> of \<^verbatim>\<open>git\<close> with the given arguments (\<open>Inl\<close>: the
  command failed); \<open>openErr\<close> is the error of opening a path other than its absence,
  \<open>createErr\<close> the error of \<^verbatim>\<open>os.Create\<close>, \<open>encodeErr\<close> the error of writing the encoded
  state; \<open>jsonDecode\<close> gives the value \<^verbatim>\<open>Decode\<close> leaves in a zero state and the error it
  returns; \<open>parseNetrc\<close> is the list of machines of a netrc file, the \<^verbatim>\<open>default\<close> entry
  having the empty name; \<open>listStatuses\<close> is the GitHub client's answer, each record with
  its \<^verbatim>\<open>State\<close> pointer; the two clock readings are the two calls of \<^verbatim>\<open>time.Now()\<close>.
\<close>

record env =
  cachedFlag :: bool
  updateFlag :: bool
  args :: "string list"
  gitOutput :: "string list \<Rightarrow> string + string"
  getenv :: "string \<Rightarrow> string"
  currentUser :: "User option"
  stat :: "string \<Rightarrow> bool"
  parseNetrc :: "string \<Rightarrow> Machine list option"
  filepathJoin :: "string list \<Rightarrow> string"
  urlParse :: "string \<Rightarrow> string + URL"
  openErr :: "string \<Rightarrow> string option"
  createErr :: "string \<Rightarrow> string option"
  encodeErr :: "string option"
  jsonDecode :: "string \<Rightarrow> persistentState \<times> string option"
  jsonEncode :: "persistentState \<Rightarrow> string"
  nowAtCheck :: Time
  nowAtFetch :: Time
  listStatuses :: "request \<Rightarrow> string + string option list"

type_synonym files = "string \<rightharpoonup> string"

datatype printed = ChangeColor Color | Print string | ResetColor

record outcome =
  exitCode :: nat
  stdout :: "printed list"
  stderr :: "fatal option"
  requests :: "request list"
  filesAfter :: files

text \<open>\<^verbatim>\<open>die\<close>: the message on standard error and \<^verbatim>\<open>os.Exit(1)\<close>.\<close>

definition die :: "fatal \<Rightarrow> printed list \<Rightarrow> request list \<Rightarrow> files \<Rightarrow> outcome" where
  "die message out reqs fs =
     \<lparr>exitCode = 1, stdout = out, stderr = Some message, requests = reqs, filesAfter = fs\<rparr>"

text \<open>
  A nil pointer dereference (\<^verbatim>\<open>*statuses[0].State\<close> for a record without a state) is a
  run-time panic: the Go runtime reports it and exits with code 2.
\<close>

definition panic :: "printed list \<Rightarrow> request list \<Rightarrow> files \<Rightarrow> outcome" where
  "panic out reqs fs =
     \<lparr>exitCode = 2, stdout = out, stderr = Some NilDereference, requests = reqs,
      filesAfter = fs\<rparr>"

definition stop :: "fatal \<Rightarrow> printed list \<Rightarrow> request list \<Rightarrow> files \<Rightarrow> outcome" where
  "stop f out reqs fs = (if f = NilDereference then panic out reqs fs else die f out reqs fs)"

subsection \<open>runGit, targetRevision\<close>

definition trimNewlines :: "string \<Rightarrow> string" where
  "trimNewlines s = rev (dropWhile (\<lambda>c. c = CHR 0x0A) (rev s))"

definition runGit :: "env \<Rightarrow> string list \<Rightarrow> fatal + string" where
  "runGit e command =
     (case gitOutput e command of
        Inl err \<Rightarrow> Inl (GitFailed command err)
      | Inr buf \<Rightarrow> Inr (trimNewlines buf))"

definition targetRevision :: "env \<Rightarrow> fatal + string" where
  "targetRevision e =
     (let revision = (case args e of [] \<Rightarrow> ''HEAD'' | a # _ \<Rightarrow> a)
      in runGit e [''rev-parse'', revision])"

subsection \<open>normalizeURL and the remote identity\<close>

text \<open>The character class \<^verbatim>\<open>[\w+]\<close>: ASCII letters, digits, underscore and the plus sign.\<close>

definition isSchemeChar :: "char \<Rightarrow> bool" where
  "isSchemeChar c =
     (c \<in> set ''0123456789ABCDEFGHIJKLMNOPQRSTUVWXYZabcdefghijklmnopqrstuvwxyz_+'')"

text \<open>
  \<^verbatim>\<open>reScheme.ReplaceAllLiteralString(urlString, "https://")\<close> for \<^verbatim>\<open>^[\w+]+://\<close>: the
  pattern is anchored and neither \<^verbatim>\<open>:\<close> nor \<^verbatim>\<open>/\<close> is in the class, so it matches at most
  once, the longest run of class characters at the start, when \<^verbatim>\<open>://\<close> follows it.
\<close>

definition replaceScheme :: "string \<Rightarrow> string" where
  "replaceScheme s =
     (let p = takeWhile isSchemeChar s; r = dropWhile isSchemeChar s
      in if p \<noteq> [] \<and> take 3 r = ''://'' then ''https://'' @ drop 3 r else s)"

text \<open>\<^verbatim>\<open>strings.Replace(s, ":", "/", 1)\<close>\<close>

definition replaceFirstColon :: "string \<Rightarrow> string" where
  "replaceFirstColon s =
     (case dropWhile (\<lambda>c. c \<noteq> CHR '':'') s of
        [] \<Rightarrow> s
      | _ # r \<Rightarrow> takeWhile (\<lambda>c. c \<noteq> CHR '':'') s @ ''/'' @ r)"

definition hasPrefix :: "string \<Rightarrow> string \<Rightarrow> bool" where
  "hasPrefix s p = (take (length p) s = p)"

definition trimSuffix :: "string \<Rightarrow> string \<Rightarrow> string" where
  "trimSuffix s suf =
     (if length suf \<le> length s \<and> drop (length s - length suf) s = suf
      then take (length s - length suf) s else s)"

text \<open>The string handed to \<^verbatim>\<open>url.Parse\<close> (part_001 68-76, the same in all three files).\<close>

definition normalizedString :: "string \<Rightarrow> string" where
  "normalizedString urlString =
     (let u = replaceScheme urlString;
          u' = (if hasPrefix u ''https://'' = False then ''https://'' @ replaceFirstColon u else u)
      in trimSuffix u' ''.git'')"

definition normalizeURL :: "env \<Rightarrow> string \<Rightarrow> string + URL" where
  "normalizeURL e urlString = urlParse e (normalizedString urlString)"

text \<open>\<^verbatim>\<open>strings.Split(s, "/")\<close>: one more piece than there are separators, empty pieces kept.\<close>

fun split :: "char \<Rightarrow> string \<Rightarrow> string list" where
  "split sep [] = [[]]"
| "split sep (c # cs) =
     (if c = sep then [] # split sep cs
      else (case split sep cs of [] \<Rightarrow> [[c]] | x # xs \<Rightarrow> (c # x) # xs))"

text \<open>
  The block \<^verbatim>\<open>// Parse remote URL\<close> (main.go 132-144, part_000 180-192, part_001 200-212),
  from the output of \<^verbatim>\<open>git config remote.origin.url\<close> on: the parsed URL,
  \<^verbatim>\<open>user := parts[1]\<close> and \<^verbatim>\<open>repo := parts[2]\<close>.
\<close>

definition remoteIdentity :: "env \<Rightarrow> string \<Rightarrow> fatal + (URL \<times> string \<times> string)" where
  "remoteIdentity e raw =
     (case normalizeURL e raw of
        Inl err \<Rightarrow> Inl (UrlParseError err)
      | Inr remoteURL \<Rightarrow>
          (let parts = split CHR ''/'' (Path remoteURL)
           in if length parts < 3 then Inl (CouldNotParse (String remoteURL))
              else Inr (remoteURL, parts ! 1, parts ! 2)))"

definition parseRemoteURL :: "env \<Rightarrow> fatal + (URL \<times> string \<times> string)" where
  "parseRemoteURL e =
     (case runGit e [''config'', ''remote.origin.url''] of
        Inl f \<Rightarrow> Inl f
      | Inr raw \<Rightarrow> remoteIdentity e raw)"

subsection \<open>retrieveAPIToken (part_000 111-142, part_001 126-157)\<close>

text \<open>
  Modelled on the contract of \<^verbatim>\<open>netrc.FindMachine\<close> (go-netrc, not part of this
  repository): the first machine with the given name, else the last \<^verbatim>\<open>default\<close> entry
  (whose name is empty), else nothing; nothing when the file does not parse.
\<close>

fun findIn :: "Machine list \<Rightarrow> string \<Rightarrow> Machine option \<Rightarrow> Machine option" where
  "findIn [] name def = def"
| "findIn (m # ms) name def =
     (if Name m = name then Some m
      else findIn ms name (if Name m = [] then Some m else def))"

definition FindMachine :: "env \<Rightarrow> string \<Rightarrow> string \<Rightarrow> Machine option" where
  "FindMachine e filename name =
     (case parseNetrc e filename of None \<Rightarrow> None | Some mach \<Rightarrow> findIn mach name None)"

definition netrcToken :: "env \<Rightarrow> URL \<Rightarrow> string" where
  "netrcToken e remoteURL =
     (case currentUser e of
        None \<Rightarrow> []
      | Some user \<Rightarrow>
          (let netrcFile = filepathJoin e [HomeDir user, ''.netrc'']
           in if stat e netrcFile
              then (let apiHost = (if Host remoteURL = ''github.com'' then ''api.github.com''
                                   else Host remoteURL)
                    in case FindMachine e netrcFile apiHost of
                         None \<Rightarrow> []
                       | Some machine \<Rightarrow> if Name machine \<noteq> [] then Password machine else [])
              else []))"

definition retrieveAPIToken :: "env \<Rightarrow> URL \<Rightarrow> fatal + string" where
  "retrieveAPIToken e remoteURL =
     (let token = getenv e ''GITHUB_COMMIT_STATUS_MARK_TOKEN'';
          token' = (if token = [] then netrcToken e remoteURL else token)
      in if token' = []
         then runGit e [''config'', ''--get-urlmatch'', ''github.token'', String remoteURL]
         else Inr token')"

subsection \<open>printStatus\<close>

text \<open>main.go 205-224, part_000 247-266: a switch on the status, the color looked up by mark.\<close>

definition statusColors :: "string \<rightharpoonup> Color" where
  "statusColors = map_of [(markFailure, Red), (markPending, Yellow), (markSuccess, Green)]"

definition printStatusSwitch :: "string \<Rightarrow> printed list" where
  "printStatusSwitch status =
     (let m = (if status = ''failure'' then markFailure
               else if status = ''pending'' then markPending
               else if status = ''success'' then markSuccess
               else markUnknown)
      in case statusColors m of
           Some c \<Rightarrow> [ChangeColor c, Print m, ResetColor]
         | None \<Rightarrow> [Print m])"

text \<open>part_001 266-275: the table, with the fallback to the entry of the unknown status.\<close>

definition printStatus :: "string \<Rightarrow> printed list" where
  "printStatus status =
     (let conf = confOf status in [ChangeColor (color conf), Print (mark conf), ResetColor])"

subsection \<open>Restoring and saving the state\<close>

definition cacheFilePath :: "env \<Rightarrow> fatal + string" where
  "cacheFilePath e =
     (case runGit e [''rev-parse'', ''--show-toplevel''] of
        Inl f \<Rightarrow> Inl f
      | Inr toplevel \<Rightarrow> Inr (filepathJoin e [toplevel, ''.github-commit-status'', ''cache'']))"

text \<open>
  part_001 89-110: \<^verbatim>\<open>os.Open\<close>; on success \<^verbatim>\<open>json.NewDecoder(cacheFile).Decode(&state)\<close> with
  its error dropped; \<^verbatim>\<open>os.IsNotExist(err)\<close> is accepted; any other error dies.
\<close>

definition restoreState :: "env \<Rightarrow> files \<Rightarrow> fatal + persistentState" where
  "restoreState e fs =
     (case cacheFilePath e of
        Inl f \<Rightarrow> Inl f
      | Inr p \<Rightarrow>
          (case openErr e p of
             Some err \<Rightarrow> Inl (OsError err)
           | None \<Rightarrow>
               (case fs p of
                  Some bytes \<Rightarrow> Inr (fst (jsonDecode e bytes))
                | None \<Rightarrow> Inr zeroState)))"

text \<open>
  main.go 101-114, part_000 83-100: \<^verbatim>\<open>os.OpenFile(cacheFilePath, os.O_CREATE|os.O_RDWR, 0666)\<close>
  creates a missing file; any error dies; the error of \<^verbatim>\<open>Decode\<close> is dropped. The result is
  the cache, the path of the open file and the files as they are then.
\<close>

definition restoreCache :: "env \<Rightarrow> files \<Rightarrow> fatal + (persistentState \<times> string \<times> files)" where
  "restoreCache e fs =
     (case cacheFilePath e of
        Inl f \<Rightarrow> Inl f
      | Inr p \<Rightarrow>
          (case openErr e p of
             Some err \<Rightarrow> Inl (OsError err)
           | None \<Rightarrow>
               (case fs p of
                  Some bytes \<Rightarrow> Inr (fst (jsonDecode e bytes), p, fs)
                | None \<Rightarrow> Inr (fst (jsonDecode e []), p, fs(p \<mapsto> [])))))"

text \<open>
  main.go 192-195, part_000 239-242, part_001 258-261: the nil map is replaced by an empty
  one, then \<^verbatim>\<open>state.Revisions[rev] = thisStatus\<close>.
\<close>

definition putRevision :: "persistentState \<Rightarrow> string \<Rightarrow> revisionEntry \<Rightarrow> persistentState" where
  "putRevision state revision thisStatus =
     (let m = (case Revisions state of None \<Rightarrow> Map.empty | Some m \<Rightarrow> m)
      in state\<lparr>Revisions := Some (m(revision \<mapsto> thisStatus))\<rparr>)"

text \<open>
  part_001 112-124: \<^verbatim>\<open>os.Create\<close> truncates or creates the file, then the state is encoded
  into it. A write that fails is taken to leave the truncated file.
\<close>

definition saveState :: "env \<Rightarrow> files \<Rightarrow> persistentState \<Rightarrow> fatal option \<times> files" where
  "saveState e fs state =
     (case cacheFilePath e of
        Inl f \<Rightarrow> (Some f, fs)
      | Inr p \<Rightarrow>
          (case createErr e p of
             Some err \<Rightarrow> (Some (OsError err), fs)
           | None \<Rightarrow>
               (case encodeErr e of
                  Some err \<Rightarrow> (Some (OsError err), fs(p \<mapsto> []))
                | None \<Rightarrow> (None, fs(p \<mapsto> jsonEncode e state)))))"

text \<open>
  main.go 197-202, part_000 102-109: \<^verbatim>\<open>Truncate(0)\<close>, \<^verbatim>\<open>Seek(0, os.SEEK_SET)\<close> and \<^verbatim>\<open>Encode\<close> on
  the file opened at the start.
\<close>

definition storeCache :: "env \<Rightarrow> files \<Rightarrow> persistentState \<Rightarrow> string \<Rightarrow> fatal option \<times> files" where
  "storeCache e fs cache cacheFile =
     (case encodeErr e of
        Some err \<Rightarrow> (Some (OsError err), fs(cacheFile \<mapsto> []))
      | None \<Rightarrow> (None, fs(cacheFile \<mapsto> jsonEncode e cache)))"

subsection \<open>The remote query\<close>

text \<open>
  From \<^verbatim>\<open>// Setup client\<close> to \<^verbatim>\<open>thisStatus\<close> (main.go 148-188, part_000 194-235, part_001
  214-254): the OAuth transport when the token is not empty, for a host other than
  github.com no certificate check and the base \<^verbatim>\<open>https://<host>/api/v3/\<close>, then
  \<^verbatim>\<open>ListStatuses(user, repo, rev, nil)\<close>; the entry is the state of the first record, or the
  empty status, stamped \<^verbatim>\<open>time.Now().Unix()\<close>. The requests made are returned too.
\<close>

definition fetchStatus ::
  "env \<Rightarrow> URL \<Rightarrow> string \<Rightarrow> string \<Rightarrow> string \<Rightarrow> string \<Rightarrow> (fatal + revisionEntry) \<times> request list"
where
  "fetchStatus e remoteURL user repository revision token =
     (case (if Host remoteURL \<noteq> ''github.com''
            then (case urlParse e (''https://'' @ Host remoteURL @ ''/api/v3/'') of
                    Inl err \<Rightarrow> Inl (OsError err)
                  | Inr u \<Rightarrow> Inr (Some u))
            else Inr None) of
        Inl f \<Rightarrow> (Inl f, [])
      | Inr base \<Rightarrow>
          (let req = \<lparr>oauthToken = (if token \<noteq> [] then Some token else None),
                      insecureSkipVerify = (Host remoteURL \<noteq> ''github.com''),
                      baseURL = base, owner = user, repo = repository, ref = revision\<rparr>
           in case listStatuses e req of
                Inl err \<Rightarrow> (Inl (FetchError err), [req])
              | Inr statuses \<Rightarrow>
                  (case statuses of
                     [] \<Rightarrow> (Inr \<lparr>Status = [], LastModified = toUnix (nowAtFetch e)\<rparr>, [req])
                   | None # _ \<Rightarrow> (Inl NilDereference, [req])
                   | Some st # _ \<Rightarrow>
                       (Inr \<lparr>Status = st, LastModified = toUnix (nowAtFetch e)\<rparr>, [req]))))"

subsection \<open>main\<close>

definition finish :: "printed list \<Rightarrow> request list \<Rightarrow> files \<Rightarrow> outcome" where
  "finish out reqs fs =
     \<lparr>exitCode = 0, stdout = out, stderr = None, requests = reqs, filesAfter = fs\<rparr>"

text \<open>part_001 200-264: the path taken when the cache is not used.\<close>

definition lookup_part_001 :: "env \<Rightarrow> files \<Rightarrow> string \<Rightarrow> persistentState \<Rightarrow> outcome" where
  "lookup_part_001 e fs revision state =
     (case parseRemoteURL e of
        Inl f \<Rightarrow> die f [] [] fs
      | Inr (remoteURL, user, repository) \<Rightarrow>
          (case retrieveAPIToken e remoteURL of
             Inl f \<Rightarrow> die f [] [] fs
           | Inr token \<Rightarrow>
               (case fetchStatus e remoteURL user repository revision token of
                  (Inl f, reqs) \<Rightarrow> stop f [] reqs fs
                | (Inr thisStatus, reqs) \<Rightarrow>
                    (case saveState e fs (putRevision state revision thisStatus) of
                       (Some f, fs') \<Rightarrow> die f (printStatus (Status thisStatus)) reqs fs'
                     | (None, fs') \<Rightarrow> finish (printStatus (Status thisStatus)) reqs fs'))))"

text \<open>part_001 168-198.\<close>

definition main_part_001 :: "env \<Rightarrow> files \<Rightarrow> outcome" where
  "main_part_001 e fs =
     (case targetRevision e of
        Inl f \<Rightarrow> die f [] [] fs
      | Inr revision \<Rightarrow>
          (case restoreState e fs of
             Inl f \<Rightarrow> die f [] [] fs
           | Inr state \<Rightarrow>
               (let cachedRevisionEntry = lookupRevision state revision;
                    useCache = (if updateFlag e then False
                                else if isValidDuration cachedRevisionEntry (nowAtCheck e) then True
                                else cachedFlag e)
                in if useCache then finish (printStatus (Status cachedRevisionEntry)) [] fs
                   else lookup_part_001 e fs revision state)))"

text \<open>part_000 180-245.\<close>

definition lookup_part_000 ::
  "env \<Rightarrow> files \<Rightarrow> string \<Rightarrow> persistentState \<Rightarrow> string \<Rightarrow> outcome"
where
  "lookup_part_000 e fs revision cache cacheFile =
     (case parseRemoteURL e of
        Inl f \<Rightarrow> die f [] [] fs
      | Inr (remoteURL, user, repository) \<Rightarrow>
          (case retrieveAPIToken e remoteURL of
             Inl f \<Rightarrow> die f [] [] fs
           | Inr token \<Rightarrow>
               (case fetchStatus e remoteURL user repository revision token of
                  (Inl f, reqs) \<Rightarrow> stop f [] reqs fs
                | (Inr thisStatus, reqs) \<Rightarrow>
                    (case storeCache e fs (putRevision cache revision thisStatus) cacheFile of
                       (Some f, fs') \<Rightarrow> die f (printStatusSwitch (Status thisStatus)) reqs fs'
                     | (None, fs') \<Rightarrow> finish (printStatusSwitch (Status thisStatus)) reqs fs'))))"

text \<open>part_000 153-178.\<close>

definition main_part_000 :: "env \<Rightarrow> files \<Rightarrow> outcome" where
  "main_part_000 e fs =
     (case targetRevision e of
        Inl f \<Rightarrow> die f [] [] fs
      | Inr revision \<Rightarrow>
          (case restoreCache e fs of
             Inl f \<Rightarrow> die f [] [] fs
           | Inr (cache, cacheFile, fs1) \<Rightarrow>
               (let cachedStatus = lookupRevision cache revision;
                    useCache = (if updateFlag e then False
                                else if isValidSeconds cachedStatus (toUnix (nowAtCheck e)) then True
                                else cachedFlag e)
                in if useCache then finish (printStatusSwitch (Status cachedStatus)) [] fs1
                   else lookup_part_000 e fs1 revision cache cacheFile)))"

text \<open>main.go 132-203: as part_000, the token read from git config alone.\<close>

definition lookup_main_go ::
  "env \<Rightarrow> files \<Rightarrow> string \<Rightarrow> persistentState \<Rightarrow> string \<Rightarrow> outcome"
where
  "lookup_main_go e fs revision cache cacheFile =
     (case parseRemoteURL e of
        Inl f \<Rightarrow> die f [] [] fs
      | Inr (remoteURL, user, repository) \<Rightarrow>
          (case runGit e [''config'', ''--get-urlmatch'', ''github.token'', String remoteURL] of
             Inl f \<Rightarrow> die f [] [] fs
           | Inr token \<Rightarrow>
               (case fetchStatus e remoteURL user repository revision token of
                  (Inl f, reqs) \<Rightarrow> stop f [] reqs fs
                | (Inr thisStatus, reqs) \<Rightarrow>
                    (case storeCache e fs (putRevision cache revision thisStatus) cacheFile of
                       (Some f, fs') \<Rightarrow> die f (printStatusSwitch (Status thisStatus)) reqs fs'
                     | (None, fs') \<Rightarrow> finish (printStatusSwitch (Status thisStatus)) reqs fs'))))"

text \<open>
  main.go 88-130: the flag \<^verbatim>\<open>useCache\<close> is first set when the entry has not expired, then
  cleared when \<^verbatim>\<open>updateCache\<close> is set.
\<close>

definition main_go :: "env \<Rightarrow> files \<Rightarrow> outcome" where
  "main_go e fs =
     (case targetRevision e of
        Inl f \<Rightarrow> die f [] [] fs
      | Inr revision \<Rightarrow>
          (case restoreCache e fs of
             Inl f \<Rightarrow> die f [] [] fs
           | Inr (cache, cacheFile, fs1) \<Rightarrow>
               (let cachedStatus = lookupRevision cache revision;
                    useCache = (if isValidSeconds cachedStatus (toUnix (nowAtCheck e)) then True
                                else cachedFlag e);
                    useCache' = (if updateFlag e then False else useCache)
                in if useCache' then finish (printStatusSwitch (Status cachedStatus)) [] fs1
                   else lookup_main_go e fs1 revision cache cacheFile)))"

subsection \<open>A sample environment\<close>

text \<open>
  The concrete runs below use this environment. \<open>sampleUrlParse\<close> stands for
  \<^verbatim>\<open>url.Parse\<close>: on a string \<^verbatim>\<open>https://[userinfo@]host[/path]\<close> without \<^verbatim>\<open>%\<close>, \<^verbatim>\<open>?\<close> and \<^verbatim>\<open>#\<close> it
  gives the host and the path the library gives; it refuses every string with a \<^verbatim>\<open>%\<close>
  sign, which the library does for a malformed escape such as \<^verbatim>\<open>%zz\<close>. The JSON codec is
  a stand-in too: \<open>sampleDecode\<close> reads one fixed content as \<open>sampleState\<close>, the empty
  content with the error \<^verbatim>\<open>EOF\<close> and anything else with a syntax error, leaving the zero
  state as \<^verbatim>\<open>Decode\<close> does.
\<close>

definition sampleUrlParse :: "string \<Rightarrow> string + URL" where
  "sampleUrlParse s =
     (if hasPrefix s ''https://'' = False then Inl ''missing protocol scheme''
      else if CHR ''%'' \<in> set s then Inl ''invalid URL escape''
      else (let rest = drop 8 s; authority = takeWhile (\<lambda>c. c \<noteq> CHR ''/'') rest
            in Inr \<lparr>Host = rev (takeWhile (\<lambda>c. c \<noteq> CHR ''@'') (rev authority)),
                    Path = dropWhile (\<lambda>c. c \<noteq> CHR ''/'') rest, String = s\<rparr>))"

definition sampleGit :: "string list \<Rightarrow> string + string" where
  "sampleGit command =
     (if command = [''rev-parse'', ''HEAD''] then Inr (''abc123'' @ [CHR 0x0A])
      else if command = [''rev-parse'', ''v1''] then Inr (''err789'' @ [CHR 0x0A])
      else if command = [''rev-parse'', ''--show-toplevel''] then Inr (''/work'' @ [CHR 0x0A])
      else if command = [''config'', ''remote.origin.url'']
        then Inr (''git@github.com:owner/repo.git'' @ [CHR 0x0A])
      else if command = [''config'', ''--get-urlmatch'', ''github.token'',
                         ''https://git@github.com/owner/repo'']
        then Inr [CHR 0x0A]
      else Inl ''exit status 1'')"

definition sampleState :: persistentState where
  "sampleState = \<lparr>Revisions = Some
     [''abc123'' \<mapsto> \<lparr>Status = ''pending'', LastModified = 1000\<rparr>,
      ''def456'' \<mapsto> \<lparr>Status = ''success'', LastModified = 900\<rparr>,
      ''err789'' \<mapsto> \<lparr>Status = ''error'', LastModified = 1000\<rparr>]\<rparr>"

definition sampleDecode :: "string \<Rightarrow> persistentState \<times> string option" where
  "sampleDecode bytes =
     (if bytes = ''three revisions'' then (sampleState, None)
      else if bytes = [] then (zeroState, Some ''EOF'')
      else (zeroState, Some ''invalid character''))"

definition sampleEnv :: env where
  "sampleEnv =
     \<lparr>cachedFlag = False, updateFlag = False, args = [],
      gitOutput = sampleGit,
      getenv = (\<lambda>name. []),
      currentUser = Some \<lparr>HomeDir = ''/home/u''\<rparr>,
      stat = (\<lambda>name. name = ''/home/u/.netrc''),
      parseNetrc = (\<lambda>name. Some
        [\<lparr>Name = [], Login = ''anyone'', Password = ''default-secret''\<rparr>,
         \<lparr>Name = ''api.github.com'', Login = ''me'', Password = ''netrc-secret''\<rparr>]),
      filepathJoin = (\<lambda>parts. foldr (\<lambda>a b. if b = [] then a else a @ ''/'' @ b) parts []),
      urlParse = sampleUrlParse,
      openErr = (\<lambda>name. None),
      createErr = (\<lambda>name. None),
      encodeErr = None,
      jsonDecode = sampleDecode,
      jsonEncode = (\<lambda>state. ''saved''),
      nowAtCheck = \<lparr>sec = 62135597805, nsec = 0\<rparr>,
      nowAtFetch = \<lparr>sec = 62135597806, nsec = 0\<rparr>,
      listStatuses = (\<lambda>req. Inr [Some ''success''])\<rparr>"

definition sampleFiles :: files where
  "sampleFiles = [''/work/.github-commit-status/cache'' \<mapsto> ''three revisions'']"

definition corruptFiles :: files where
  "corruptFiles = [''/work/.github-commit-status/cache'' \<mapsto> ''{'']"

section \<open>Properties\<close>

subsection \<open>Signed arithmetic without overflow\<close>

lemma sint_add_no_overflow:
  fixes a b :: int64
  assumes "0 \<le> sint b" "sint a + sint b < 2 ^ 63"
  shows "sint (a + b) = sint a + sint b"
proof -
  have lo: "- (2 ^ 63) \<le> sint a" using sint_ge [of a] by simp
  have "sint (a + b) = signed_take_bit 63 (sint a + sint b)"
    by (simp add: sint_word_ariths)
  also have "\<dots> = sint a + sint b"
    using lo assms by (intro signed_take_bit_int_eq_self) auto
  finally show ?thesis .
qed

lemmas status_defs = statusUnknown_def statusFailure_def statusPending_def statusSuccess_def

lemma expiration_failure: "index cacheExpirationSeconds 0 ''failure'' = - 1"
  and expiration_success: "index cacheExpirationSeconds 0 ''success'' = - 1"
  and expiration_pending: "index cacheExpirationSeconds 0 ''pending'' = 10"
  and expiration_unknown: "index cacheExpirationSeconds 0 [] = 30"
  by (simp_all add: index_def cacheExpirationSeconds_def)

lemma cacheFor_failure: "cacheFor (confOf ''failure'') = forever"
  and cacheFor_success: "cacheFor (confOf ''success'') = forever"
  and cacheFor_pending: "cacheFor (confOf ''pending'') = 10000000000"
  and cacheFor_unknown: "cacheFor (confOf []) = 30000000000"
  by (simp_all add: confOf_def statusConfiguration_def status_defs index_def Second_def)

lemma Add_pending: "Add (Unix0 lm) 10000000000 = \<lparr>sec = lm + 62135596810, nsec = 0\<rparr>"
  by (simp add: Add_def Unix0_def quo64_def rem64_def signed_divide_int_def
      signed_modulo_int_def unixToInternal_def word_sle_eq word_sless_alt)

lemma Add_unknown: "Add (Unix0 lm) 30000000000 = \<lparr>sec = lm + 62135596830, nsec = 0\<rparr>"
  by (simp add: Add_def Unix0_def quo64_def rem64_def signed_divide_int_def
      signed_modulo_int_def unixToInternal_def word_sle_eq word_sless_alt)

lemma isValidSeconds_finite:
  assumes "index cacheExpirationSeconds 0 (Status e) = ttl" "0 \<le> sint ttl"
    and "sint (LastModified e) + sint ttl < 2 ^ 63"
  shows "isValidSeconds e nowUnix \<longleftrightarrow> sint nowUnix < sint (LastModified e) + sint ttl"
proof -
  have "ttl \<noteq> - 1" using assms(2) by auto
  then show ?thesis
    using assms by (simp add: isValidSeconds_def word_sless_alt sint_add_no_overflow)
qed

lemma Before_whole_seconds:
  assumes "0 \<le> sint (nsec now)" "sint (nsec now) < 1000000000"
    and "sint lm + sint c < 2 ^ 63" "0 \<le> sint c"
  shows "Before now \<lparr>sec = lm + c, nsec = 0\<rparr> \<longleftrightarrow>
    unixNanos now < (sint lm + sint c - 62135596800) * 1000000000"
  using assms by (simp add: Before_def unixNanos_def word_sless_alt sint_add_no_overflow) arith

lemma sample_cacheFilePath: "cacheFilePath sampleEnv = Inr ''/work/.github-commit-status/cache''"
  by (simp add: cacheFilePath_def runGit_def sampleEnv_def sampleGit_def trimNewlines_def)

subsection \<open>The validity of a cached entry\<close>

text \<open>
  C1 (as amended). An entry with the status failure or success is valid at every time, in
  the check of main.go and part_000 (\<open>isValidSeconds\<close>) and in that of part_001
  (\<open>isValidDuration\<close>). For the status pending (10 seconds) and the empty status (30
  seconds), as long as the sum of \<^verbatim>\<open>LastModified\<close> and the time to live stays below
  \<open>2 ^ 63\<close> (in part_001: the sum with the 62135596800 seconds that \<^verbatim>\<open>time.Unix\<close> adds),
  the entry is valid exactly when the current time is before \<^verbatim>\<open>LastModified\<close> plus the
  time to live; so it is not valid at that instant and later. The current time is
  \<^verbatim>\<open>time.Now().Unix()\<close> in main.go and part_000 and a \<^verbatim>\<open>Time\<close> with its nanoseconds in
  part_001.
\<close>

theorem isValid_within_range:
  "(Status e = ''failure'' \<or> Status e = ''success'' \<longrightarrow>
      isValidSeconds e nowUnix \<and> isValidDuration e now)
   \<and> (Status e = ''pending'' \<and> sint (LastModified e) + 10 < 2 ^ 63 \<longrightarrow>
      (isValidSeconds e nowUnix \<longleftrightarrow> sint nowUnix < sint (LastModified e) + 10))
   \<and> (Status e = [] \<and> sint (LastModified e) + 30 < 2 ^ 63 \<longrightarrow>
      (isValidSeconds e nowUnix \<longleftrightarrow> sint nowUnix < sint (LastModified e) + 30))
   \<and> (Status e = ''pending'' \<and> sint (LastModified e) + 62135596810 < 2 ^ 63
        \<and> 0 \<le> sint (nsec now) \<and> sint (nsec now) < 1000000000 \<longrightarrow>
      (isValidDuration e now \<longleftrightarrow> unixNanos now < (sint (LastModified e) + 10) * 1000000000))
   \<and> (Status e = [] \<and> sint (LastModified e) + 62135596830 < 2 ^ 63
        \<and> 0 \<le> sint (nsec now) \<and> sint (nsec now) < 1000000000 \<longrightarrow>
      (isValidDuration e now \<longleftrightarrow> unixNanos now < (sint (LastModified e) + 30) * 1000000000))"
proof (intro conjI impI)
  assume "Status e = ''failure'' \<or> Status e = ''success''"
  then show "isValidSeconds e nowUnix"
    by (auto simp: isValidSeconds_def expiration_failure expiration_success)
next
  assume "Status e = ''failure'' \<or> Status e = ''success''"
  then show "isValidDuration e now"
    by (auto simp: isValidDuration_def cacheFor_failure cacheFor_success)
next
  assume "Status e = ''pending'' \<and> sint (LastModified e) + 10 < 2 ^ 63"
  then show "isValidSeconds e nowUnix \<longleftrightarrow> sint nowUnix < sint (LastModified e) + 10"
    using isValidSeconds_finite [of e 10 nowUnix] by (simp add: expiration_pending)
next
  assume "Status e = [] \<and> sint (LastModified e) + 30 < 2 ^ 63"
  then show "isValidSeconds e nowUnix \<longleftrightarrow> sint nowUnix < sint (LastModified e) + 30"
    using isValidSeconds_finite [of e 30 nowUnix] by (simp add: expiration_unknown)
next
  assume a: "Status e = ''pending'' \<and> sint (LastModified e) + 62135596810 < 2 ^ 63
    \<and> 0 \<le> sint (nsec now) \<and> sint (nsec now) < 1000000000"
  then have "isValidDuration e now \<longleftrightarrow>
      Before now \<lparr>sec = LastModified e + 62135596810, nsec = 0\<rparr>"
    by (simp add: isValidDuration_def cacheFor_pending Add_pending forever_def)
  also have "\<dots> \<longleftrightarrow> unixNanos now < (sint (LastModified e) + sint (62135596810 :: int64)
      - 62135596800) * 1000000000"
    using a by (intro Before_whole_seconds) simp_all
  finally show "isValidDuration e now \<longleftrightarrow>
      unixNanos now < (sint (LastModified e) + 10) * 1000000000"
    by (simp add: algebra_simps)
next
  assume a: "Status e = [] \<and> sint (LastModified e) + 62135596830 < 2 ^ 63
    \<and> 0 \<le> sint (nsec now) \<and> sint (nsec now) < 1000000000"
  then have "isValidDuration e now \<longleftrightarrow>
      Before now \<lparr>sec = LastModified e + 62135596830, nsec = 0\<rparr>"
    by (simp add: isValidDuration_def cacheFor_unknown Add_unknown forever_def)
  also have "\<dots> \<longleftrightarrow> unixNanos now < (sint (LastModified e) + sint (62135596830 :: int64)
      - 62135596800) * 1000000000"
    using a by (intro Before_whole_seconds) simp_all
  finally show "isValidDuration e now \<longleftrightarrow>
      unixNanos now < (sint (LastModified e) + 30) * 1000000000"
    by (simp add: algebra_simps)
qed

text \<open>
  The claim as stated fails where the addition wraps: for an entry with the status pending
  and \<^verbatim>\<open>LastModified\<close> = 9223372036854775807 the current time 1000 is before
  \<^verbatim>\<open>LastModified\<close> + 10, and neither check holds the entry valid.
\<close>

theorem isValid_overflow_counterexample:
  "\<not> (isValidSeconds \<lparr>Status = ''pending'', LastModified = 0x7FFFFFFFFFFFFFFF\<rparr> 1000
        \<longleftrightarrow> sint (1000 :: int64) < sint (0x7FFFFFFFFFFFFFFF :: int64) + 10)
   \<and> \<not> (isValidDuration \<lparr>Status = ''pending'', LastModified = 0x7FFFFFFFFFFFFFFF\<rparr>
           \<lparr>sec = 62135597800, nsec = 0\<rparr>
        \<longleftrightarrow> unixNanos \<lparr>sec = 62135597800, nsec = 0\<rparr>
             < (sint (0x7FFFFFFFFFFFFFFF :: int64) + 10) * 1000000000)"
  by (simp add: isValidSeconds_def expiration_pending isValidDuration_def cacheFor_pending
      Add_pending forever_def Before_def unixNanos_def word_sless_alt)

theorem isValid_within_range_witness:
  "isValidSeconds \<lparr>Status = ''success'', LastModified = 1000\<rparr> 99999
   \<and> isValidDuration \<lparr>Status = ''failure'', LastModified = 1000\<rparr> \<lparr>sec = 62135696799, nsec = 0\<rparr>
   \<and> isValidSeconds \<lparr>Status = ''pending'', LastModified = 1000\<rparr> 1009
   \<and> \<not> isValidSeconds \<lparr>Status = ''pending'', LastModified = 1000\<rparr> 1010
   \<and> isValidSeconds \<lparr>Status = [], LastModified = 1000\<rparr> 1029
   \<and> \<not> isValidSeconds \<lparr>Status = [], LastModified = 1000\<rparr> 1030
   \<and> isValidDuration \<lparr>Status = ''pending'', LastModified = 1000\<rparr>
        \<lparr>sec = 62135597809, nsec = 999999999\<rparr>
   \<and> \<not> isValidDuration \<lparr>Status = ''pending'', LastModified = 1000\<rparr>
        \<lparr>sec = 62135597810, nsec = 0\<rparr>
   \<and> isValidDuration \<lparr>Status = [], LastModified = 1000\<rparr>
        \<lparr>sec = 62135597829, nsec = 999999999\<rparr>
   \<and> \<not> isValidDuration \<lparr>Status = [], LastModified = 1000\<rparr>
        \<lparr>sec = 62135597830, nsec = 0\<rparr>"
  using
    isValid_within_range [of "\<lparr>Status = ''success'', LastModified = 1000\<rparr>" 99999]
    isValid_within_range [of "\<lparr>Status = ''failure'', LastModified = 1000\<rparr>" _
      "\<lparr>sec = 62135696799, nsec = 0\<rparr>"]
    isValid_within_range [of "\<lparr>Status = ''pending'', LastModified = 1000\<rparr>" 1009
      "\<lparr>sec = 62135597809, nsec = 999999999\<rparr>"]
    isValid_within_range [of "\<lparr>Status = ''pending'', LastModified = 1000\<rparr>" 1010
      "\<lparr>sec = 62135597810, nsec = 0\<rparr>"]
    isValid_within_range [of "\<lparr>Status = [], LastModified = 1000\<rparr>" 1029
      "\<lparr>sec = 62135597829, nsec = 999999999\<rparr>"]
    isValid_within_range [of "\<lparr>Status = [], LastModified = 1000\<rparr>" 1030
      "\<lparr>sec = 62135597830, nsec = 0\<rparr>"]
  by (simp add: unixNanos_def)

subsection \<open>Restoring the state\<close>

text \<open>
  C2 (as amended). With the path of the cache file known, \<open>restoreState\<close> (part_001)
  gives the zero state when the file does not exist, dies with the error when the file
  cannot be opened for another reason, and for a file that opens gives what the decoder
  left in the state, whatever error the decoder returned: no content is fatal.
  \<open>restoreCache\<close> (main.go, part_000) dies when the file can neither be opened nor created,
  and otherwise gives what the decoder left, for a file it had to create the decoding of
  the empty content.
\<close>

theorem restoreState_cases:
  assumes "cacheFilePath e = Inr p"
  shows "(openErr e p = None \<and> fs p = None \<longrightarrow> restoreState e fs = Inr zeroState)
    \<and> (\<forall>err. openErr e p = Some err \<longrightarrow> restoreState e fs = Inl (OsError err))
    \<and> (\<forall>bytes. openErr e p = None \<and> fs p = Some bytes \<longrightarrow>
          restoreState e fs = Inr (fst (jsonDecode e bytes)))
    \<and> (\<forall>err. openErr e p = Some err \<longrightarrow> restoreCache e fs = Inl (OsError err))
    \<and> (openErr e p = None \<and> fs p = None \<longrightarrow>
          restoreCache e fs = Inr (fst (jsonDecode e []), p, fs(p \<mapsto> [])))
    \<and> (\<forall>bytes. openErr e p = None \<and> fs p = Some bytes \<longrightarrow>
          restoreCache e fs = Inr (fst (jsonDecode e bytes), p, fs))"
  using assms by (simp add: restoreState_def restoreCache_def)

theorem restoreState_cases_witness:
  "restoreState sampleEnv Map.empty = Inr zeroState
   \<and> restoreState (sampleEnv\<lparr>openErr := \<lambda>name. Some ''permission denied''\<rparr>) sampleFiles
       = Inl (OsError ''permission denied'')
   \<and> restoreState sampleEnv sampleFiles = Inr sampleState
   \<and> restoreCache (sampleEnv\<lparr>openErr := \<lambda>name. Some ''permission denied''\<rparr>) sampleFiles
       = Inl (OsError ''permission denied'')
   \<and> restoreCache sampleEnv Map.empty
       = Inr (zeroState, ''/work/.github-commit-status/cache'',
              [''/work/.github-commit-status/cache'' \<mapsto> []])
   \<and> restoreCache sampleEnv sampleFiles
       = Inr (sampleState, ''/work/.github-commit-status/cache'', sampleFiles)"
proof -
  let ?p = "''/work/.github-commit-status/cache''"
  let ?e = "sampleEnv\<lparr>openErr := \<lambda>name. Some ''permission denied''\<rparr>"
  have p': "cacheFilePath ?e = Inr ?p"
    by (simp add: cacheFilePath_def runGit_def sampleEnv_def sampleGit_def trimNewlines_def)
  have none: "openErr sampleEnv ?p = None" and some: "openErr ?e ?p = Some ''permission denied''"
    by (simp_all add: sampleEnv_def)
  have dec: "jsonDecode sampleEnv ''three revisions'' = (sampleState, None)"
    "jsonDecode sampleEnv [] = (zeroState, Some ''EOF'')"
    by (simp_all add: sampleEnv_def sampleDecode_def)
  have f: "sampleFiles ?p = Some ''three revisions''"
    by (simp add: sampleFiles_def)
  show ?thesis
    using restoreState_cases [OF sample_cacheFilePath, of Map.empty]
      restoreState_cases [OF p', of sampleFiles]
      restoreState_cases [OF sample_cacheFilePath, of sampleFiles]
    by (simp add: none some dec f)
qed

text \<open>
  The claim as stated fails for a file whose content does not parse: the content \<^verbatim>\<open>{\<close>
  makes the decoder return an error, and the state restored is the zero state.
\<close>

theorem restoreState_corrupt_counterexample:
  "corruptFiles ''/work/.github-commit-status/cache'' = Some ''{''
   \<and> snd (jsonDecode sampleEnv ''{'') = Some ''invalid character''
   \<and> restoreState sampleEnv corruptFiles = Inr zeroState
   \<and> restoreCache sampleEnv corruptFiles
       = Inr (zeroState, ''/work/.github-commit-status/cache'', corruptFiles)"
  by (simp add: restoreState_def restoreCache_def sample_cacheFilePath)
     (simp add: sampleEnv_def corruptFiles_def sampleDecode_def)

subsection \<open>The remote identity\<close>

lemma length_split: "length (split sep s) = Suc (count_list s sep)"
  by (induction s) (auto split: list.splits)

lemma sample_normalized:
  "normalizedString ''git@github.com:owner/repo.git'' = ''https://git@github.com/owner/repo''"
  by (simp add: normalizedString_def replaceScheme_def isSchemeChar_def hasPrefix_def
      replaceFirstColon_def trimSuffix_def)

lemma sample_parse_ssh:
  "urlParse sampleEnv ''https://git@github.com/owner/repo''
    = Inr \<lparr>Host = ''github.com'', Path = ''/owner/repo'', String = ''https://git@github.com/owner/repo''\<rparr>"
  by (simp add: sampleEnv_def sampleUrlParse_def hasPrefix_def)

lemma sample_normalizeURL:
  "normalizeURL sampleEnv ''https://github.com/%zz'' = Inl ''invalid URL escape''"
  "normalizeURL sampleEnv ''https://github.com/owner''
     = Inr \<lparr>Host = ''github.com'', Path = ''/owner'', String = ''https://github.com/owner''\<rparr>"
  "normalizeURL sampleEnv ''https://github.com/owner/repo''
     = Inr \<lparr>Host = ''github.com'', Path = ''/owner/repo'', String = ''https://github.com/owner/repo''\<rparr>"
  "normalizeURL sampleEnv ''https://github.com/owner/''
     = Inr \<lparr>Host = ''github.com'', Path = ''/owner/'', String = ''https://github.com/owner/''\<rparr>"
  by (simp_all add: normalizeURL_def normalizedString_def replaceScheme_def isSchemeChar_def
      hasPrefix_def trimSuffix_def sampleEnv_def sampleUrlParse_def)

text \<open>
  C6. For the remote \<^verbatim>\<open>git@github.com:owner/repo.git\<close> no scheme is found, the first colon
  becomes a slash, \<^verbatim>\<open>https://\<close> is put in front and the suffix \<^verbatim>\<open>.git\<close> is cut, so that
  \<^verbatim>\<open>url.Parse\<close> receives \<^verbatim>\<open>https://git@github.com/owner/repo\<close>. With a parser that reads this
  string as the host github.com and the path \<^verbatim>\<open>/owner/repo\<close>, as the library does, the
  identity is the host github.com, the owner \<^verbatim>\<open>owner\<close> and the repository \<^verbatim>\<open>repo\<close>.
\<close>

theorem normalize_ssh_remote:
  assumes "urlParse e ''https://git@github.com/owner/repo'' = Inr u"
    and "Host u = ''github.com''" and "Path u = ''/owner/repo''"
  shows "replaceScheme ''git@github.com:owner/repo.git'' = ''git@github.com:owner/repo.git''
    \<and> replaceFirstColon ''git@github.com:owner/repo.git'' = ''git@github.com/owner/repo.git''
    \<and> normalizedString ''git@github.com:owner/repo.git'' = ''https://git@github.com/owner/repo''
    \<and> normalizeURL e ''git@github.com:owner/repo.git'' = Inr u
    \<and> remoteIdentity e ''git@github.com:owner/repo.git'' = Inr (u, ''owner'', ''repo'')
    \<and> Host u = ''github.com''"
proof -
  have 1: "replaceScheme ''git@github.com:owner/repo.git'' = ''git@github.com:owner/repo.git''"
    by (simp add: replaceScheme_def isSchemeChar_def)
  have 2: "replaceFirstColon ''git@github.com:owner/repo.git'' = ''git@github.com/owner/repo.git''"
    by (simp add: replaceFirstColon_def)
  have 3: "normalizeURL e ''git@github.com:owner/repo.git'' = Inr u"
    by (simp add: normalizeURL_def sample_normalized assms(1))
  have 4: "split CHR ''/'' ''/owner/repo'' = [[], ''owner'', ''repo'']"
    by simp
  have 5: "remoteIdentity e ''git@github.com:owner/repo.git'' = Inr (u, ''owner'', ''repo'')"
    by (simp add: remoteIdentity_def 3 assms(3) 4)
  show ?thesis using 1 2 3 5 sample_normalized assms(2) by simp
qed

theorem normalize_ssh_remote_witness:
  "remoteIdentity sampleEnv ''git@github.com:owner/repo.git''
    = Inr (\<lparr>Host = ''github.com'', Path = ''/owner/repo'',
            String = ''https://git@github.com/owner/repo''\<rparr>, ''owner'', ''repo'')"
  using normalize_ssh_remote [OF sample_parse_ssh] by simp

text \<open>
  C7 (as amended). The identity fails exactly when \<^verbatim>\<open>url.Parse\<close> refuses the normalized
  string, with the parser's error, or when the path of the parsed URL has fewer than two
  slashes, so that \<^verbatim>\<open>strings.Split\<close> gives fewer than three pieces, with the text of the
  normalized URL. With two slashes or more it succeeds with the second and third piece,
  empty or not; in particular it succeeds for every path that begins with a slash and has
  two non-empty pieces.
\<close>

theorem remoteIdentity_fails_iff:
  "(remoteIdentity e raw = Inl f \<longleftrightarrow>
      (\<exists>err. normalizeURL e raw = Inl err \<and> f = UrlParseError err)
      \<or> (\<exists>u. normalizeURL e raw = Inr u \<and> count_list (Path u) CHR ''/'' < 2
              \<and> f = CouldNotParse (String u)))
   \<and> (normalizeURL e raw = Inr u \<and> 2 \<le> count_list (Path u) CHR ''/'' \<longrightarrow>
        remoteIdentity e raw
          = Inr (u, split CHR ''/'' (Path u) ! 1, split CHR ''/'' (Path u) ! 2))
   \<and> (normalizeURL e raw = Inr u \<and> take 1 (Path u) = ''/''
        \<and> 2 \<le> length (filter (\<lambda>s. s \<noteq> []) (split CHR ''/'' (Path u))) \<longrightarrow>
        (\<exists>user repository. remoteIdentity e raw = Inr (u, user, repository)))"
proof (intro conjI impI)
  show "remoteIdentity e raw = Inl f \<longleftrightarrow>
      (\<exists>err. normalizeURL e raw = Inl err \<and> f = UrlParseError err)
      \<or> (\<exists>u. normalizeURL e raw = Inr u \<and> count_list (Path u) CHR ''/'' < 2
              \<and> f = CouldNotParse (String u))"
    by (cases "normalizeURL e raw") (auto simp: remoteIdentity_def Let_def length_split)
next
  assume "normalizeURL e raw = Inr u \<and> 2 \<le> count_list (Path u) CHR ''/''"
  then show "remoteIdentity e raw
      = Inr (u, split CHR ''/'' (Path u) ! 1, split CHR ''/'' (Path u) ! 2)"
    by (simp add: remoteIdentity_def Let_def length_split)
next
  assume a: "normalizeURL e raw = Inr u \<and> take 1 (Path u) = ''/''
    \<and> 2 \<le> length (filter (\<lambda>s. s \<noteq> []) (split CHR ''/'' (Path u)))"
  then obtain cs where cs: "Path u = CHR ''/'' # cs"
    by (cases "Path u") auto
  have "split CHR ''/'' (Path u) = [] # split CHR ''/'' cs"
    by (simp add: cs)
  with a have "2 \<le> length (filter (\<lambda>s. s \<noteq> []) (split CHR ''/'' cs))"
    by simp
  then have "2 \<le> length (split CHR ''/'' cs)"
    using length_filter_le [of "\<lambda>s. s \<noteq> []" "split CHR ''/'' cs"] by linarith
  then have "\<not> length (split CHR ''/'' (Path u)) < 3"
    by (simp add: cs)
  with a show "\<exists>user repository. remoteIdentity e raw = Inr (u, user, repository)"
    by (simp add: remoteIdentity_def Let_def)
qed

theorem remoteIdentity_fails_iff_witness:
  "remoteIdentity sampleEnv ''https://github.com/%zz'' = Inl (UrlParseError ''invalid URL escape'')
   \<and> remoteIdentity sampleEnv ''https://github.com/owner''
       = Inl (CouldNotParse ''https://github.com/owner'')
   \<and> remoteIdentity sampleEnv ''https://github.com/owner/repo''
       = Inr (\<lparr>Host = ''github.com'', Path = ''/owner/repo'',
               String = ''https://github.com/owner/repo''\<rparr>, ''owner'', ''repo'')"
  using
    remoteIdentity_fails_iff [of sampleEnv "''https://github.com/%zz''"
      "UrlParseError ''invalid URL escape''"]
    remoteIdentity_fails_iff [of sampleEnv "''https://github.com/owner''"
      "CouldNotParse ''https://github.com/owner''"]
    remoteIdentity_fails_iff [of sampleEnv "''https://github.com/owner/repo''" _
      "\<lparr>Host = ''github.com'', Path = ''/owner/repo'', String = ''https://github.com/owner/repo''\<rparr>"]
  by (simp add: sample_normalizeURL)

text \<open>
  The claim as stated fails for the remote \<^verbatim>\<open>https://github.com/owner/\<close>: its path has one
  non-empty piece, and the identity succeeds with the empty repository name.
\<close>

theorem remoteIdentity_empty_segment_counterexample:
  "filter (\<lambda>s. s \<noteq> []) (split CHR ''/'' ''/owner/'') = [''owner'']
   \<and> remoteIdentity sampleEnv ''https://github.com/owner/''
       = Inr (\<lparr>Host = ''github.com'', Path = ''/owner/'',
               String = ''https://github.com/owner/''\<rparr>, ''owner'', [])"
  by (simp add: remoteIdentity_def sample_normalizeURL)

subsection \<open>The credential\<close>

lemma findIn_password:
  assumes "def = None \<or> (\<exists>d. def = Some d \<and> Name d = [])"
  shows "(case findIn ms name def of None \<Rightarrow> [] | Some m \<Rightarrow> if Name m \<noteq> [] then Password m else [])
    = (case find (\<lambda>m. Name m = name) ms of
         None \<Rightarrow> [] | Some m \<Rightarrow> if Name m \<noteq> [] then Password m else [])"
  using assms by (induction ms arbitrary: def) auto

lemma sample_netrcToken: "netrcToken sampleEnv u =
  (if Host u = ''github.com'' \<or> Host u = ''api.github.com'' then ''netrc-secret'' else [])"
  by (auto simp: netrcToken_def FindMachine_def sampleEnv_def Let_def)

text \<open>
  C5. \<open>retrieveAPIToken\<close> returns the environment variable
  \<^verbatim>\<open>GITHUB_COMMIT_STATUS_MARK_TOKEN\<close> when it is not empty, whatever the netrc file holds;
  else the netrc token when that is not empty; else the output of
  \<^verbatim>\<open>git config --get-urlmatch github.token\<close> for the text of the normalized URL, which is the
  empty string, without error, when git prints nothing. The netrc token is the password of
  the first machine whose name is the host, api.github.com standing for github.com; an
  entry with the empty name, the \<^verbatim>\<open>default\<close> one, never gives a token; without a user, a
  netrc file or a parsable one there is no netrc token.
\<close>

theorem retrieveAPIToken_priority:
  "(getenv e ''GITHUB_COMMIT_STATUS_MARK_TOKEN'' \<noteq> [] \<longrightarrow>
      retrieveAPIToken e u = Inr (getenv e ''GITHUB_COMMIT_STATUS_MARK_TOKEN''))
   \<and> (getenv e ''GITHUB_COMMIT_STATUS_MARK_TOKEN'' = [] \<and> netrcToken e u \<noteq> [] \<longrightarrow>
      retrieveAPIToken e u = Inr (netrcToken e u))
   \<and> (getenv e ''GITHUB_COMMIT_STATUS_MARK_TOKEN'' = [] \<and> netrcToken e u = [] \<longrightarrow>
      retrieveAPIToken e u
        = runGit e [''config'', ''--get-urlmatch'', ''github.token'', String u])
   \<and> (getenv e ''GITHUB_COMMIT_STATUS_MARK_TOKEN'' = [] \<and> netrcToken e u = []
       \<and> gitOutput e [''config'', ''--get-urlmatch'', ''github.token'', String u] = Inr out
       \<and> trimNewlines out = [] \<longrightarrow>
      retrieveAPIToken e u = Inr [])
   \<and> (currentUser e = Some user \<and> stat e (filepathJoin e [HomeDir user, ''.netrc''])
       \<and> parseNetrc e (filepathJoin e [HomeDir user, ''.netrc'']) = Some mach \<longrightarrow>
      netrcToken e u
        = (case find (\<lambda>m. Name m = (if Host u = ''github.com'' then ''api.github.com''
                                      else Host u)) mach of
             None \<Rightarrow> []
           | Some m \<Rightarrow> if Name m \<noteq> [] then Password m else []))
   \<and> (currentUser e = None \<or> (\<exists>user. currentUser e = Some user
          \<and> (\<not> stat e (filepathJoin e [HomeDir user, ''.netrc''])
               \<or> parseNetrc e (filepathJoin e [HomeDir user, ''.netrc'']) = None)) \<longrightarrow>
      netrcToken e u = [])"
proof (intro conjI impI)
  assume a: "currentUser e = Some user \<and> stat e (filepathJoin e [HomeDir user, ''.netrc''])
       \<and> parseNetrc e (filepathJoin e [HomeDir user, ''.netrc'']) = Some mach"
  let ?host = "if Host u = ''github.com'' then ''api.github.com'' else Host u"
  have "netrcToken e u
    = (case findIn mach ?host None of
         None \<Rightarrow> [] | Some m \<Rightarrow> if Name m \<noteq> [] then Password m else [])"
    using a by (simp add: netrcToken_def FindMachine_def Let_def)
  also have "\<dots> = (case find (\<lambda>m. Name m = ?host) mach of
         None \<Rightarrow> [] | Some m \<Rightarrow> if Name m \<noteq> [] then Password m else [])"
    by (rule findIn_password) simp
  finally show "netrcToken e u
        = (case find (\<lambda>m. Name m = ?host) mach of
             None \<Rightarrow> []
           | Some m \<Rightarrow> if Name m \<noteq> [] then Password m else [])" .
qed (auto simp: retrieveAPIToken_def Let_def runGit_def netrcToken_def FindMachine_def)

theorem retrieveAPIToken_priority_witness:
  "retrieveAPIToken (sampleEnv\<lparr>getenv := \<lambda>name. ''env-secret''\<rparr>)
      \<lparr>Host = ''github.com'', Path = ''/owner/repo'', String = ''https://git@github.com/owner/repo''\<rparr>
     = Inr ''env-secret''
   \<and> retrieveAPIToken sampleEnv
      \<lparr>Host = ''github.com'', Path = ''/owner/repo'', String = ''https://git@github.com/owner/repo''\<rparr>
     = Inr ''netrc-secret''
   \<and> retrieveAPIToken (sampleEnv\<lparr>currentUser := None\<rparr>)
      \<lparr>Host = ''github.com'', Path = ''/owner/repo'', String = ''https://git@github.com/owner/repo''\<rparr>
     = Inr []
   \<and> netrcToken sampleEnv
      \<lparr>Host = ''ghe.example.com'', Path = ''/owner/repo'', String = ''https://ghe.example.com/owner/repo''\<rparr>
     = []"
proof -
  let ?u = "\<lparr>Host = ''github.com'', Path = ''/owner/repo'',
    String = ''https://git@github.com/owner/repo''\<rparr>"
  let ?v = "\<lparr>Host = ''ghe.example.com'', Path = ''/owner/repo'',
    String = ''https://ghe.example.com/owner/repo''\<rparr>"
  let ?mach = "[\<lparr>Name = [], Login = ''anyone'', Password = ''default-secret''\<rparr>,
         \<lparr>Name = ''api.github.com'', Login = ''me'', Password = ''netrc-secret''\<rparr>]"
  have 1: "retrieveAPIToken (sampleEnv\<lparr>getenv := \<lambda>name. ''env-secret''\<rparr>) ?u = Inr ''env-secret''"
    using retrieveAPIToken_priority [of "sampleEnv\<lparr>getenv := \<lambda>name. ''env-secret''\<rparr>" ?u]
    by simp
  have 2: "retrieveAPIToken sampleEnv ?u = Inr ''netrc-secret''"
    using retrieveAPIToken_priority [of sampleEnv ?u]
    by (simp add: sample_netrcToken sampleEnv_def)
  have 3: "retrieveAPIToken (sampleEnv\<lparr>currentUser := None\<rparr>) ?u = Inr []"
    using retrieveAPIToken_priority [of "sampleEnv\<lparr>currentUser := None\<rparr>" ?u "[CHR 0x0A]"]
    by (simp add: trimNewlines_def netrcToken_def runGit_def sampleEnv_def sampleGit_def)
  have 4: "netrcToken sampleEnv ?v = []"
    using retrieveAPIToken_priority [of sampleEnv ?v _ "\<lparr>HomeDir = ''/home/u''\<rparr>" ?mach]
    by (simp add: sampleEnv_def)
  show ?thesis using 1 2 3 4 by simp
qed

subsection \<open>The two paths of main\<close>

lemma putRevision_Revisions:
  "Revisions (putRevision state r entry)
     = Some ((case Revisions state of None \<Rightarrow> Map.empty | Some m \<Rightarrow> m)(r \<mapsto> entry))"
  by (simp add: putRevision_def Let_def)

lemma lookupRevision_putRevision:
  "lookupRevision (putRevision state r entry) k
     = (if k = r then entry else lookupRevision state k)"
  by (simp add: lookupRevision_def putRevision_Revisions index_def zeroEntry_def
      split: option.splits)

lemma fetchStatus_result:
  assumes "fetchStatus e u user repository revision token = (Inr thisStatus, reqs)"
  shows "\<exists>req statuses. reqs = [req] \<and> owner req = user \<and> repo req = repository
    \<and> ref req = revision \<and> oauthToken req = (if token \<noteq> [] then Some token else None)
    \<and> listStatuses e req = Inr statuses
    \<and> LastModified thisStatus = toUnix (nowAtFetch e)
    \<and> (statuses = [] \<and> Status thisStatus = []
        \<or> (\<exists>rest. statuses = Some (Status thisStatus) # rest))"
  using assms
  by (auto simp: fetchStatus_def Let_def split: sum.splits list.splits option.splits if_splits)

lemma lookup_part_001_success:
  assumes "parseRemoteURL e = Inr (u, user, repository)"
    and "retrieveAPIToken e u = Inr token"
    and "fetchStatus e u user repository revision token = (Inr thisStatus, reqs)"
    and "cacheFilePath e = Inr p" and "createErr e p = None" and "encodeErr e = None"
  shows "lookup_part_001 e fs revision state
    = finish (printStatus (Status thisStatus)) reqs
        (fs(p \<mapsto> jsonEncode e (putRevision state revision thisStatus)))"
  using assms by (simp add: lookup_part_001_def saveState_def)

lemma lookup_part_000_success:
  assumes "parseRemoteURL e = Inr (u, user, repository)"
    and "retrieveAPIToken e u = Inr token"
    and "fetchStatus e u user repository revision token = (Inr thisStatus, reqs)"
    and "encodeErr e = None"
  shows "lookup_part_000 e fs revision cache cacheFile
    = finish (printStatusSwitch (Status thisStatus)) reqs
        (fs(cacheFile \<mapsto> jsonEncode e (putRevision cache revision thisStatus)))"
  using assms by (simp add: lookup_part_000_def storeCache_def)

lemma lookup_main_go_success:
  assumes "parseRemoteURL e = Inr (u, user, repository)"
    and "runGit e [''config'', ''--get-urlmatch'', ''github.token'', String u] = Inr token"
    and "fetchStatus e u user repository revision token = (Inr thisStatus, reqs)"
    and "encodeErr e = None"
  shows "lookup_main_go e fs revision cache cacheFile
    = finish (printStatusSwitch (Status thisStatus)) reqs
        (fs(cacheFile \<mapsto> jsonEncode e (putRevision cache revision thisStatus)))"
  using assms by (simp add: lookup_main_go_def storeCache_def)

lemma restoreCache_files:
  assumes "restoreCache e fs = Inr (cache, cacheFile, fs1)"
  shows "fs1 = (case fs cacheFile of None \<Rightarrow> fs(cacheFile \<mapsto> []) | Some bytes \<Rightarrow> fs)"
  using assms by (auto simp: restoreCache_def split: sum.splits option.splits)

text \<open>
  C3 (as amended). When the revision resolves, \<^verbatim>\<open>--update\<close> is not set and the cached
  entry is valid or \<^verbatim>\<open>--cached\<close> is set, the program prints the mark of the cached status,
  exits with code 0, makes no request and writes no state. In part_001 the files are
  exactly those before the run. In main.go and part_000 they are those left by opening the
  cache file: a file that exists keeps its content, and a missing one has been created
  empty by \<^verbatim>\<open>os.OpenFile\<close> with \<^verbatim>\<open>O_CREATE\<close>.
\<close>

theorem cache_hit_frame:
  assumes "targetRevision e = Inr revision" and "\<not> updateFlag e"
  shows "(restoreState e fs = Inr state
          \<and> (isValidDuration (lookupRevision state revision) (nowAtCheck e) \<or> cachedFlag e) \<longrightarrow>
          main_part_001 e fs
            = \<lparr>exitCode = 0,
               stdout = [ChangeColor (color (confOf (Status (lookupRevision state revision)))),
                         Print (mark (confOf (Status (lookupRevision state revision)))),
                         ResetColor],
               stderr = None, requests = [], filesAfter = fs\<rparr>)
     \<and> (restoreCache e fs = Inr (cache, cacheFile, fs1)
          \<and> (isValidSeconds (lookupRevision cache revision) (toUnix (nowAtCheck e))
               \<or> cachedFlag e) \<longrightarrow>
          main_part_000 e fs
            = \<lparr>exitCode = 0, stdout = printStatusSwitch (Status (lookupRevision cache revision)),
               stderr = None, requests = [], filesAfter = fs1\<rparr>
          \<and> main_go e fs = main_part_000 e fs
          \<and> fs1 = (case fs cacheFile of None \<Rightarrow> fs(cacheFile \<mapsto> []) | Some bytes \<Rightarrow> fs))"
proof (intro conjI impI)
  assume "restoreState e fs = Inr state
    \<and> (isValidDuration (lookupRevision state revision) (nowAtCheck e) \<or> cachedFlag e)"
  then show "main_part_001 e fs
            = \<lparr>exitCode = 0,
               stdout = [ChangeColor (color (confOf (Status (lookupRevision state revision)))),
                         Print (mark (confOf (Status (lookupRevision state revision)))),
                         ResetColor],
               stderr = None, requests = [], filesAfter = fs\<rparr>"
    using assms by (auto simp: main_part_001_def finish_def printStatus_def Let_def)
next
  assume a: "restoreCache e fs = Inr (cache, cacheFile, fs1)
    \<and> (isValidSeconds (lookupRevision cache revision) (toUnix (nowAtCheck e)) \<or> cachedFlag e)"
  then show 1: "main_part_000 e fs
            = \<lparr>exitCode = 0, stdout = printStatusSwitch (Status (lookupRevision cache revision)),
               stderr = None, requests = [], filesAfter = fs1\<rparr>"
    using assms by (auto simp: main_part_000_def finish_def Let_def)
  from a show "main_go e fs = main_part_000 e fs"
    using assms unfolding 1 by (auto simp: main_go_def finish_def Let_def)
  from a show "fs1 = (case fs cacheFile of None \<Rightarrow> fs(cacheFile \<mapsto> []) | Some bytes \<Rightarrow> fs)"
    using restoreCache_files [of e fs cache cacheFile fs1] by blast
qed

text \<open>
  C4. With \<^verbatim>\<open>--update\<close> set and the revision resolved, each revision of the program takes
  the lookup path whatever entry the restored state holds and whatever the clock reads:
  neither the entry nor the time occurs in the result. When the remote URL and the token
  resolve and the API answers, exactly one request is made, for the owner, the repository
  and the resolved revision, and when the state can be written the cache file holds the
  restored state with the fetched entry put at the resolved revision.
\<close>

theorem update_forces_lookup:
  assumes "updateFlag e" and "targetRevision e = Inr revision"
  shows "(restoreState e fs = Inr state \<longrightarrow>
            main_part_001 e fs = lookup_part_001 e fs revision state)
     \<and> (restoreCache e fs = Inr (cache, cacheFile, fs1) \<longrightarrow>
            main_part_000 e fs = lookup_part_000 e fs1 revision cache cacheFile
            \<and> main_go e fs = lookup_main_go e fs1 revision cache cacheFile)
     \<and> (parseRemoteURL e = Inr (u, user, repository)
          \<and> fetchStatus e u user repository revision token = (Inr thisStatus, reqs)
          \<and> encodeErr e = None \<longrightarrow>
            (\<exists>req. reqs = [req] \<and> owner req = user \<and> repo req = repository \<and> ref req = revision)
          \<and> lookupRevision (putRevision state revision thisStatus) revision = thisStatus
          \<and> lookupRevision (putRevision cache revision thisStatus) revision = thisStatus
          \<and> (restoreState e fs = Inr state \<and> retrieveAPIToken e u = Inr token
               \<and> cacheFilePath e = Inr p \<and> createErr e p = None \<longrightarrow>
              main_part_001 e fs
                = finish (printStatus (Status thisStatus)) reqs
                    (fs(p \<mapsto> jsonEncode e (putRevision state revision thisStatus))))
          \<and> (restoreCache e fs = Inr (cache, cacheFile, fs1)
               \<and> retrieveAPIToken e u = Inr token \<longrightarrow>
              main_part_000 e fs
                = finish (printStatusSwitch (Status thisStatus)) reqs
                    (fs1(cacheFile \<mapsto> jsonEncode e (putRevision cache revision thisStatus))))
          \<and> (restoreCache e fs = Inr (cache, cacheFile, fs1)
               \<and> runGit e [''config'', ''--get-urlmatch'', ''github.token'', String u]
                   = Inr token \<longrightarrow>
              main_go e fs
                = finish (printStatusSwitch (Status thisStatus)) reqs
                    (fs1(cacheFile \<mapsto> jsonEncode e (putRevision cache revision thisStatus)))))"
proof -
  have 1: "restoreState e fs = Inr state \<Longrightarrow>
      main_part_001 e fs = lookup_part_001 e fs revision state" for state
    using assms by (simp add: main_part_001_def)
  have 2: "restoreCache e fs = Inr (cache, cacheFile, fs1) \<Longrightarrow>
      main_part_000 e fs = lookup_part_000 e fs1 revision cache cacheFile"
    for cache cacheFile fs1
    using assms by (simp add: main_part_000_def)
  have 3: "restoreCache e fs = Inr (cache, cacheFile, fs1) \<Longrightarrow>
      main_go e fs = lookup_main_go e fs1 revision cache cacheFile"
    for cache cacheFile fs1
    using assms by (simp add: main_go_def Let_def)
  have 4: "fetchStatus e u user repository revision token = (Inr thisStatus, reqs) \<Longrightarrow>
      \<exists>req. reqs = [req] \<and> owner req = user \<and> repo req = repository \<and> ref req = revision"
    using fetchStatus_result [of e u user repository revision token thisStatus reqs] by blast
  show ?thesis
    using 1 2 3 4
    by (auto simp: lookupRevision_putRevision lookup_part_001_success
        lookup_part_000_success lookup_main_go_success)
qed

lemma cachedFlag_irrelevant:
  "runGit (e\<lparr>cachedFlag := b\<rparr>) = runGit e"
  "targetRevision (e\<lparr>cachedFlag := b\<rparr>) = targetRevision e"
  "cacheFilePath (e\<lparr>cachedFlag := b\<rparr>) = cacheFilePath e"
  "restoreState (e\<lparr>cachedFlag := b\<rparr>) = restoreState e"
  "restoreCache (e\<lparr>cachedFlag := b\<rparr>) = restoreCache e"
  "parseRemoteURL (e\<lparr>cachedFlag := b\<rparr>) = parseRemoteURL e"
  "retrieveAPIToken (e\<lparr>cachedFlag := b\<rparr>) = retrieveAPIToken e"
  "fetchStatus (e\<lparr>cachedFlag := b\<rparr>) = fetchStatus e"
  "saveState (e\<lparr>cachedFlag := b\<rparr>) = saveState e"
  "storeCache (e\<lparr>cachedFlag := b\<rparr>) = storeCache e"
  by (simp_all add: fun_eq_iff runGit_def targetRevision_def cacheFilePath_def restoreState_def
      restoreCache_def parseRemoteURL_def remoteIdentity_def normalizeURL_def
      retrieveAPIToken_def netrcToken_def FindMachine_def fetchStatus_def saveState_def
      storeCache_def
      cong: sum.case_cong option.case_cong list.case_cong if_cong)

lemma lookup_cachedFlag_irrelevant:
  "lookup_part_001 (e\<lparr>cachedFlag := b\<rparr>) = lookup_part_001 e"
  "lookup_part_000 (e\<lparr>cachedFlag := b\<rparr>) = lookup_part_000 e"
  "lookup_main_go (e\<lparr>cachedFlag := b\<rparr>) = lookup_main_go e"
  by (simp_all add: fun_eq_iff lookup_part_001_def lookup_part_000_def lookup_main_go_def
      cachedFlag_irrelevant cong: sum.case_cong option.case_cong)

lemma main_under_update:
  assumes "updateFlag e"
  shows "main_part_001 e fs =
      (case targetRevision e of Inl f \<Rightarrow> die f [] [] fs
       | Inr revision \<Rightarrow>
          (case restoreState e fs of Inl f \<Rightarrow> die f [] [] fs
           | Inr state \<Rightarrow> lookup_part_001 e fs revision state))"
    and "main_part_000 e fs =
      (case targetRevision e of Inl f \<Rightarrow> die f [] [] fs
       | Inr revision \<Rightarrow>
          (case restoreCache e fs of Inl f \<Rightarrow> die f [] [] fs
           | Inr (cache, cacheFile, fs1) \<Rightarrow> lookup_part_000 e fs1 revision cache cacheFile))"
    and "main_go e fs =
      (case targetRevision e of Inl f \<Rightarrow> die f [] [] fs
       | Inr revision \<Rightarrow>
          (case restoreCache e fs of Inl f \<Rightarrow> die f [] [] fs
           | Inr (cache, cacheFile, fs1) \<Rightarrow> lookup_main_go e fs1 revision cache cacheFile))"
  using assms
  by (simp_all add: main_part_001_def main_part_000_def main_go_def Let_def
      split: sum.splits prod.splits)

text \<open>
  C10. With \<^verbatim>\<open>--cached\<close> and \<^verbatim>\<open>--update\<close> both set, each revision of the program behaves as
  with \<^verbatim>\<open>--update\<close> alone: it takes the lookup path, for every restored state and every
  clock reading, and when the lookup succeeds it prints the mark of the fetched status, not
  of the cached one, makes the one request and writes the state with the fetched entry.
\<close>

theorem update_overrides_cached:
  assumes "cachedFlag e" and "updateFlag e"
  shows "main_part_001 e fs = main_part_001 (e\<lparr>cachedFlag := False\<rparr>) fs
     \<and> main_part_000 e fs = main_part_000 (e\<lparr>cachedFlag := False\<rparr>) fs
     \<and> main_go e fs = main_go (e\<lparr>cachedFlag := False\<rparr>) fs
     \<and> (targetRevision e = Inr revision \<and> restoreState e fs = Inr state \<longrightarrow>
          main_part_001 e fs = lookup_part_001 e fs revision state)
     \<and> (targetRevision e = Inr revision \<and> restoreCache e fs = Inr (cache, cacheFile, fs1) \<longrightarrow>
          main_part_000 e fs = lookup_part_000 e fs1 revision cache cacheFile
          \<and> main_go e fs = lookup_main_go e fs1 revision cache cacheFile)
     \<and> (targetRevision e = Inr revision \<and> restoreState e fs = Inr state
          \<and> parseRemoteURL e = Inr (u, user, repository) \<and> retrieveAPIToken e u = Inr token
          \<and> fetchStatus e u user repository revision token = (Inr thisStatus, reqs)
          \<and> cacheFilePath e = Inr p \<and> createErr e p = None \<and> encodeErr e = None \<longrightarrow>
          stdout (main_part_001 e fs) = printStatus (Status thisStatus)
          \<and> requests (main_part_001 e fs) = reqs \<and> length reqs = 1
          \<and> filesAfter (main_part_001 e fs) p
              = Some (jsonEncode e (putRevision state revision thisStatus)))
     \<and> (targetRevision e = Inr revision \<and> restoreCache e fs = Inr (cache, cacheFile, fs1)
          \<and> parseRemoteURL e = Inr (u, user, repository)
          \<and> fetchStatus e u user repository revision token = (Inr thisStatus, reqs)
          \<and> encodeErr e = None \<longrightarrow>
          length reqs = 1
          \<and> (retrieveAPIToken e u = Inr token \<longrightarrow>
               stdout (main_part_000 e fs) = printStatusSwitch (Status thisStatus)
               \<and> requests (main_part_000 e fs) = reqs
               \<and> filesAfter (main_part_000 e fs) cacheFile
                   = Some (jsonEncode e (putRevision cache revision thisStatus)))
          \<and> (runGit e [''config'', ''--get-urlmatch'', ''github.token'', String u] = Inr token
               \<longrightarrow>
               stdout (main_go e fs) = printStatusSwitch (Status thisStatus)
               \<and> requests (main_go e fs) = reqs
               \<and> filesAfter (main_go e fs) cacheFile
                   = Some (jsonEncode e (putRevision cache revision thisStatus))))"
proof -
  have u: "updateFlag (e\<lparr>cachedFlag := False\<rparr>)"
    using assms(2) by simp
  have 1: "main_part_001 e fs = main_part_001 (e\<lparr>cachedFlag := False\<rparr>) fs"
    by (simp add: main_under_update(1) [OF assms(2)] main_under_update(1) [OF u]
        cachedFlag_irrelevant lookup_cachedFlag_irrelevant
        cong: sum.case_cong prod.case_cong)
  have 2: "main_part_000 e fs = main_part_000 (e\<lparr>cachedFlag := False\<rparr>) fs"
    by (simp add: main_under_update(2) [OF assms(2)] main_under_update(2) [OF u]
        cachedFlag_irrelevant lookup_cachedFlag_irrelevant
        cong: sum.case_cong prod.case_cong)
  have 3: "main_go e fs = main_go (e\<lparr>cachedFlag := False\<rparr>) fs"
    by (simp add: main_under_update(3) [OF assms(2)] main_under_update(3) [OF u]
        cachedFlag_irrelevant lookup_cachedFlag_irrelevant
        cong: sum.case_cong prod.case_cong)
  have 4: "fetchStatus e u user repository revision token = (Inr thisStatus, reqs) \<Longrightarrow>
      length reqs = 1"
    using fetchStatus_result [of e u user repository revision token thisStatus reqs] by auto
  show ?thesis
    using 1 2 3 4
    by (auto simp: main_under_update [OF assms(2)] lookup_part_001_success
        lookup_part_000_success lookup_main_go_success finish_def)
qed

text \<open>
  C9. Whenever a run has made a request and ended with exit code 0, the cache file holds
  the encoding of the restored state after one \<open>putRevision\<close> at the resolved revision, and
  no other file has changed. That state maps the resolved revision to the new entry and
  every other revision to the entry it had in the restored state.
\<close>

theorem live_lookup_frame:
  assumes "targetRevision e = Inr revision"
  shows "(restoreState e fs = Inr state \<and> cacheFilePath e = Inr p
          \<and> exitCode (main_part_001 e fs) = 0 \<and> requests (main_part_001 e fs) \<noteq> [] \<longrightarrow>
          (\<exists>thisStatus. filesAfter (main_part_001 e fs)
              = fs(p \<mapsto> jsonEncode e (putRevision state revision thisStatus))))
     \<and> (restoreCache e fs = Inr (cache, cacheFile, fs1)
          \<and> exitCode (main_part_000 e fs) = 0 \<and> requests (main_part_000 e fs) \<noteq> [] \<longrightarrow>
          (\<exists>thisStatus. filesAfter (main_part_000 e fs)
              = fs1(cacheFile \<mapsto> jsonEncode e (putRevision cache revision thisStatus))))
     \<and> (restoreCache e fs = Inr (cache, cacheFile, fs1)
          \<and> exitCode (main_go e fs) = 0 \<and> requests (main_go e fs) \<noteq> [] \<longrightarrow>
          (\<exists>thisStatus. filesAfter (main_go e fs)
              = fs1(cacheFile \<mapsto> jsonEncode e (putRevision cache revision thisStatus))))
     \<and> Revisions (putRevision state revision thisStatus)
          = Some ((case Revisions state of None \<Rightarrow> Map.empty | Some m \<Rightarrow> m)
                    (revision \<mapsto> thisStatus))
     \<and> (k \<noteq> revision \<longrightarrow>
          lookupRevision (putRevision state revision thisStatus) k = lookupRevision state k)
     \<and> (k \<noteq> revision \<and> Revisions state = Some m \<longrightarrow>
          (\<exists>m'. Revisions (putRevision state revision thisStatus) = Some m' \<and> m' k = m k))"
proof (intro conjI impI)
  assume a: "restoreState e fs = Inr state \<and> cacheFilePath e = Inr p
    \<and> exitCode (main_part_001 e fs) = 0 \<and> requests (main_part_001 e fs) \<noteq> []"
  then have "main_part_001 e fs = lookup_part_001 e fs revision state"
    using assms by (auto simp: main_part_001_def Let_def finish_def split: if_splits)
  with a show "\<exists>thisStatus. filesAfter (main_part_001 e fs)
      = fs(p \<mapsto> jsonEncode e (putRevision state revision thisStatus))"
    by (auto simp: lookup_part_001_def saveState_def die_def stop_def panic_def finish_def
        split: sum.splits prod.splits option.splits if_splits)
next
  assume a: "restoreCache e fs = Inr (cache, cacheFile, fs1)
    \<and> exitCode (main_part_000 e fs) = 0 \<and> requests (main_part_000 e fs) \<noteq> []"
  then have "main_part_000 e fs = lookup_part_000 e fs1 revision cache cacheFile"
    using assms by (auto simp: main_part_000_def Let_def finish_def split: if_splits)
  with a show "\<exists>thisStatus. filesAfter (main_part_000 e fs)
      = fs1(cacheFile \<mapsto> jsonEncode e (putRevision cache revision thisStatus))"
    by (auto simp: lookup_part_000_def storeCache_def die_def stop_def panic_def finish_def
        split: sum.splits prod.splits option.splits if_splits)
next
  assume a: "restoreCache e fs = Inr (cache, cacheFile, fs1)
    \<and> exitCode (main_go e fs) = 0 \<and> requests (main_go e fs) \<noteq> []"
  then have "main_go e fs = lookup_main_go e fs1 revision cache cacheFile"
    using assms by (auto simp: main_go_def Let_def finish_def split: if_splits)
  with a show "\<exists>thisStatus. filesAfter (main_go e fs)
      = fs1(cacheFile \<mapsto> jsonEncode e (putRevision cache revision thisStatus))"
    by (auto simp: lookup_main_go_def storeCache_def die_def stop_def panic_def finish_def
        split: sum.splits prod.splits option.splits if_splits)
qed (auto simp: putRevision_Revisions lookupRevision_putRevision)

subsection \<open>Runs in the sample environment\<close>

lemma updateFlag_irrelevant:
  "targetRevision (e\<lparr>updateFlag := b\<rparr>) = targetRevision e"
  "cacheFilePath (e\<lparr>updateFlag := b\<rparr>) = cacheFilePath e"
  "restoreState (e\<lparr>updateFlag := b\<rparr>) = restoreState e"
  "restoreCache (e\<lparr>updateFlag := b\<rparr>) = restoreCache e"
  "parseRemoteURL (e\<lparr>updateFlag := b\<rparr>) = parseRemoteURL e"
  "retrieveAPIToken (e\<lparr>updateFlag := b\<rparr>) = retrieveAPIToken e"
  "runGit (e\<lparr>updateFlag := b\<rparr>) = runGit e"
  "fetchStatus (e\<lparr>updateFlag := b\<rparr>) = fetchStatus e"
  by (simp_all add: fun_eq_iff runGit_def targetRevision_def cacheFilePath_def restoreState_def
      restoreCache_def parseRemoteURL_def remoteIdentity_def normalizeURL_def
      retrieveAPIToken_def netrcToken_def FindMachine_def fetchStatus_def
      cong: sum.case_cong option.case_cong list.case_cong if_cong)

lemma args_irrelevant:
  "cacheFilePath (e\<lparr>args := a\<rparr>) = cacheFilePath e"
  "restoreState (e\<lparr>args := a\<rparr>) = restoreState e"
  "restoreCache (e\<lparr>args := a\<rparr>) = restoreCache e"
  "parseRemoteURL (e\<lparr>args := a\<rparr>) = parseRemoteURL e"
  "retrieveAPIToken (e\<lparr>args := a\<rparr>) = retrieveAPIToken e"
  "runGit (e\<lparr>args := a\<rparr>) = runGit e"
  "fetchStatus (e\<lparr>args := a\<rparr>) = fetchStatus e"
  by (simp_all add: fun_eq_iff runGit_def cacheFilePath_def restoreState_def
      restoreCache_def parseRemoteURL_def remoteIdentity_def normalizeURL_def
      retrieveAPIToken_def netrcToken_def FindMachine_def fetchStatus_def
      cong: sum.case_cong option.case_cong list.case_cong if_cong)

lemma sample_targetRevision:
  "targetRevision sampleEnv = Inr ''abc123''"
  "targetRevision (sampleEnv\<lparr>args := [''v1'']\<rparr>) = Inr ''err789''"
  by (simp_all add: targetRevision_def runGit_def sampleEnv_def sampleGit_def trimNewlines_def)

lemma sample_restore:
  "restoreState sampleEnv sampleFiles = Inr sampleState"
  "restoreCache sampleEnv sampleFiles
     = Inr (sampleState, ''/work/.github-commit-status/cache'', sampleFiles)"
  by (simp_all add: restoreState_def restoreCache_def sample_cacheFilePath)
     (simp_all add: sampleEnv_def sampleFiles_def sampleDecode_def)

lemma sample_entries:
  "lookupRevision sampleState ''abc123'' = \<lparr>Status = ''pending'', LastModified = 1000\<rparr>"
  "lookupRevision sampleState ''err789'' = \<lparr>Status = ''error'', LastModified = 1000\<rparr>"
  by (simp_all add: lookupRevision_def sampleState_def index_def)

lemma sample_clock:
  "nowAtCheck sampleEnv = \<lparr>sec = 62135597805, nsec = 0\<rparr>"
  "toUnix (nowAtCheck sampleEnv) = 1005"
  "toUnix \<lparr>sec = 62135597805, nsec = 0\<rparr> = 1005"
  "toUnix (nowAtFetch sampleEnv) = 1006"
  by (simp_all add: sampleEnv_def toUnix_def unixToInternal_def)

lemma sample_parseRemoteURL:
  "parseRemoteURL sampleEnv
     = Inr (\<lparr>Host = ''github.com'', Path = ''/owner/repo'',
             String = ''https://git@github.com/owner/repo''\<rparr>, ''owner'', ''repo'')"
proof -
  have "runGit sampleEnv [''config'', ''remote.origin.url'']
      = Inr ''git@github.com:owner/repo.git''"
    by (simp add: runGit_def sampleEnv_def sampleGit_def trimNewlines_def)
  moreover have "remoteIdentity sampleEnv ''git@github.com:owner/repo.git''
      = Inr (\<lparr>Host = ''github.com'', Path = ''/owner/repo'',
             String = ''https://git@github.com/owner/repo''\<rparr>, ''owner'', ''repo'')"
    by (simp add: remoteIdentity_def normalizeURL_def sample_normalized sample_parse_ssh)
  ultimately show ?thesis
    by (simp add: parseRemoteURL_def)
qed

lemma sample_getenv: "getenv sampleEnv name = []"
  by (simp add: sampleEnv_def)

lemma sample_listStatuses: "listStatuses sampleEnv req = Inr [Some ''success'']"
  by (simp add: sampleEnv_def)

lemma sample_git_token:
  "runGit sampleEnv [''config'', ''--get-urlmatch'', ''github.token'',
     ''https://git@github.com/owner/repo''] = Inr []"
  by (simp add: runGit_def sampleEnv_def sampleGit_def trimNewlines_def)

lemma sample_retrieveAPIToken:
  "retrieveAPIToken sampleEnv
     \<lparr>Host = ''github.com'', Path = ''/owner/repo'',
      String = ''https://git@github.com/owner/repo''\<rparr> = Inr ''netrc-secret''"
  by (simp add: retrieveAPIToken_def sample_getenv sample_netrcToken)

lemma sample_fetchStatus:
  "fetchStatus sampleEnv
     \<lparr>Host = ''github.com'', Path = ''/owner/repo'',
      String = ''https://git@github.com/owner/repo''\<rparr> ''owner'' ''repo'' revision token
   = (Inr \<lparr>Status = ''success'', LastModified = 1006\<rparr>,
      [\<lparr>oauthToken = (if token \<noteq> [] then Some token else None),
        insecureSkipVerify = False, baseURL = None,
        owner = ''owner'', repo = ''repo'', ref = revision\<rparr>])"
  by (simp add: fetchStatus_def sample_clock sample_listStatuses)

lemma sample_save:
  "createErr sampleEnv p = None" "encodeErr sampleEnv = None"
  "jsonEncode sampleEnv state = ''saved''"
  by (simp_all add: sampleEnv_def)

lemma sample_valid:
  "isValidDuration \<lparr>Status = ''pending'', LastModified = 1000\<rparr> \<lparr>sec = 62135597805, nsec = 0\<rparr>"
  "isValidSeconds \<lparr>Status = ''pending'', LastModified = 1000\<rparr> 1005"
  "isValidDuration \<lparr>Status = ''error'', LastModified = 1000\<rparr> \<lparr>sec = 62135597805, nsec = 0\<rparr>"
  "\<not> isValidSeconds \<lparr>Status = ''error'', LastModified = 1000\<rparr> 1005"
  by (simp_all add: isValidDuration_def isValidSeconds_def confOf_def statusConfiguration_def
      status_defs index_def Second_def forever_def cacheExpirationSeconds_def Add_pending
      Add_unknown Before_def word_sless_alt)

lemma printStatus_marks:
  "printStatus ''failure'' = [ChangeColor Red, Print markFailure, ResetColor]"
  "printStatus ''pending'' = [ChangeColor Yellow, Print markPending, ResetColor]"
  "printStatus ''success'' = [ChangeColor Green, Print markSuccess, ResetColor]"
  "printStatus [] = [ChangeColor None_color, Print ''?'', ResetColor]"
  "printStatusSwitch ''failure'' = [ChangeColor Red, Print markFailure, ResetColor]"
  "printStatusSwitch ''pending'' = [ChangeColor Yellow, Print markPending, ResetColor]"
  "printStatusSwitch ''success'' = [ChangeColor Green, Print markSuccess, ResetColor]"
  "printStatusSwitch [] = [Print ''?'']"
  by (simp_all add: printStatus_def printStatusSwitch_def confOf_def statusConfiguration_def
      status_defs index_def statusColors_def markUnknown_def markFailure_def markPending_def
      markSuccess_def)

lemma confOf_unrecognized:
  assumes "status \<notin> {[], ''failure'', ''pending'', ''success''}"
  shows "confOf status = confOf []"
  using assms by (simp add: confOf_def statusConfiguration_def status_defs index_def)

lemma unrecognized_part_001:
  assumes "status \<notin> {[], ''failure'', ''pending'', ''success''}"
  shows "printStatus status = [ChangeColor None_color, Print ''?'', ResetColor]"
    and "isValidDuration \<lparr>Status = status, LastModified = lm\<rparr> now
      = isValidDuration \<lparr>Status = [], LastModified = lm\<rparr> now"
  using confOf_unrecognized [OF assms] printStatus_marks(4)
  by (simp_all add: printStatus_def isValidDuration_def)

theorem cache_hit_frame_witness:
  "main_part_001 sampleEnv sampleFiles
     = \<lparr>exitCode = 0, stdout = [ChangeColor Yellow, Print markPending, ResetColor],
        stderr = None, requests = [], filesAfter = sampleFiles\<rparr>
   \<and> main_part_000 sampleEnv sampleFiles
     = \<lparr>exitCode = 0, stdout = [ChangeColor Yellow, Print markPending, ResetColor],
        stderr = None, requests = [], filesAfter = sampleFiles\<rparr>
   \<and> main_go sampleEnv sampleFiles
     = \<lparr>exitCode = 0, stdout = [ChangeColor Yellow, Print markPending, ResetColor],
        stderr = None, requests = [], filesAfter = sampleFiles\<rparr>"
proof -
  have u: "\<not> updateFlag sampleEnv"
    by (simp add: sampleEnv_def)
  have c: "color (confOf ''pending'') = Yellow" "mark (confOf ''pending'') = markPending"
    using printStatus_marks(2) by (simp_all add: printStatus_def Let_def)
  show ?thesis
    using cache_hit_frame [OF sample_targetRevision(1) u, of sampleFiles sampleState sampleState
        "''/work/.github-commit-status/cache''" sampleFiles]
    by (simp add: sample_restore sample_entries sample_clock sample_valid printStatus_marks c)
qed

text \<open>
  The claim as stated fails in main.go and part_000 when the cache file is missing: run
  with \<^verbatim>\<open>--cached\<close> and no cache file, both print \<^verbatim>\<open>?\<close>, exit with code 0 and leave an
  empty cache file where there was none.
\<close>

theorem cache_hit_creates_file_counterexample:
  "main_go (sampleEnv\<lparr>cachedFlag := True\<rparr>) Map.empty
     = \<lparr>exitCode = 0, stdout = [Print ''?''], stderr = None, requests = [],
        filesAfter = [''/work/.github-commit-status/cache'' \<mapsto> []]\<rparr>
   \<and> main_part_000 (sampleEnv\<lparr>cachedFlag := True\<rparr>) Map.empty
     = \<lparr>exitCode = 0, stdout = [Print ''?''], stderr = None, requests = [],
        filesAfter = [''/work/.github-commit-status/cache'' \<mapsto> []]\<rparr>
   \<and> (Map.empty :: files) ''/work/.github-commit-status/cache'' = None"
proof -
  let ?e = "sampleEnv\<lparr>cachedFlag := True\<rparr>"
  let ?p = "''/work/.github-commit-status/cache''"
  have r: "targetRevision ?e = Inr ''abc123''"
    by (simp add: cachedFlag_irrelevant sample_targetRevision)
  have c: "restoreCache ?e Map.empty = Inr (zeroState, ?p, [?p \<mapsto> []])"
    by (simp add: cachedFlag_irrelevant restoreCache_def sample_cacheFilePath)
       (simp add: sampleEnv_def sampleDecode_def)
  have z: "lookupRevision zeroState ''abc123'' = zeroEntry"
    by (simp add: lookupRevision_def zeroState_def)
  have f: "cachedFlag ?e" "\<not> updateFlag ?e"
    by (simp_all add: sampleEnv_def)
  show ?thesis
    by (simp add: main_go_def main_part_000_def r c z f zeroEntry_def finish_def
        printStatus_marks Let_def)
qed

theorem update_forces_lookup_witness:
  "main_part_001 (sampleEnv\<lparr>updateFlag := True\<rparr>) sampleFiles
     = \<lparr>exitCode = 0, stdout = [ChangeColor Green, Print markSuccess, ResetColor],
        stderr = None,
        requests = [\<lparr>oauthToken = Some ''netrc-secret'', insecureSkipVerify = False,
                     baseURL = None, owner = ''owner'', repo = ''repo'', ref = ''abc123''\<rparr>],
        filesAfter = sampleFiles(''/work/.github-commit-status/cache'' \<mapsto> ''saved'')\<rparr>
   \<and> main_part_000 (sampleEnv\<lparr>updateFlag := True\<rparr>) sampleFiles
     = main_part_001 (sampleEnv\<lparr>updateFlag := True\<rparr>) sampleFiles
   \<and> main_go (sampleEnv\<lparr>updateFlag := True\<rparr>) sampleFiles
     = \<lparr>exitCode = 0, stdout = [ChangeColor Green, Print markSuccess, ResetColor],
        stderr = None,
        requests = [\<lparr>oauthToken = None, insecureSkipVerify = False,
                     baseURL = None, owner = ''owner'', repo = ''repo'', ref = ''abc123''\<rparr>],
        filesAfter = sampleFiles(''/work/.github-commit-status/cache'' \<mapsto> ''saved'')\<rparr>"
proof -
  let ?e = "sampleEnv\<lparr>updateFlag := True\<rparr>"
  let ?u = "\<lparr>Host = ''github.com'', Path = ''/owner/repo'',
    String = ''https://git@github.com/owner/repo''\<rparr>"
  let ?p = "''/work/.github-commit-status/cache''"
  have u: "updateFlag ?e" by simp
  have r: "targetRevision ?e = Inr ''abc123''"
    by (simp add: updateFlag_irrelevant sample_targetRevision)
  have s: "createErr ?e ?p = None" "encodeErr ?e = None" "jsonEncode ?e = (\<lambda>state. ''saved'')"
    by (simp_all add: sampleEnv_def)
  let ?t = "\<lparr>Status = ''success'', LastModified = 1006\<rparr>"
  let ?r1 = "[\<lparr>oauthToken = Some ''netrc-secret'', insecureSkipVerify = False,
      baseURL = None, owner = ''owner'', repo = ''repo'', ref = ''abc123''\<rparr>]"
  let ?r0 = "[\<lparr>oauthToken = None, insecureSkipVerify = False,
      baseURL = None, owner = ''owner'', repo = ''repo'', ref = ''abc123''\<rparr>]"
  have h: "parseRemoteURL ?e = Inr (?u, ''owner'', ''repo'')"
    "restoreState ?e sampleFiles = Inr sampleState"
    "restoreCache ?e sampleFiles = Inr (sampleState, ?p, sampleFiles)"
    "retrieveAPIToken ?e ?u = Inr ''netrc-secret''"
    "runGit ?e [''config'', ''--get-urlmatch'', ''github.token'', String ?u] = Inr []"
    "cacheFilePath ?e = Inr ?p"
    "fetchStatus ?e ?u ''owner'' ''repo'' ''abc123'' ''netrc-secret'' = (Inr ?t, ?r1)"
    "fetchStatus ?e ?u ''owner'' ''repo'' ''abc123'' [] = (Inr ?t, ?r0)"
    by (simp_all add: updateFlag_irrelevant sample_restore sample_parseRemoteURL
        sample_retrieveAPIToken sample_git_token sample_fetchStatus sample_cacheFilePath)
  have 1: "main_part_001 ?e sampleFiles
      = finish (printStatus ''success'') ?r1 (sampleFiles(?p \<mapsto> ''saved''))"
    and 2: "main_part_000 ?e sampleFiles
      = finish (printStatusSwitch ''success'') ?r1 (sampleFiles(?p \<mapsto> ''saved''))"
    using update_forces_lookup [OF u r, of sampleFiles sampleState sampleState ?p sampleFiles
      ?u "''owner''" "''repo''" "''netrc-secret''" ?t ?r1 ?p] h s
    by auto
  have 3: "main_go ?e sampleFiles
      = finish (printStatusSwitch ''success'') ?r0 (sampleFiles(?p \<mapsto> ''saved''))"
    using update_forces_lookup [OF u r, of sampleFiles sampleState sampleState ?p sampleFiles
      ?u "''owner''" "''repo''" "[]" ?t ?r0 ?p] h s
    by auto
  show ?thesis
    by (simp add: 1 2 3 finish_def printStatus_marks)
qed

lemma sample_live_facts:
  fixes e :: env
  assumes "e = sampleEnv\<lparr>updateFlag := True\<rparr> \<or> e = sampleEnv\<lparr>cachedFlag := True, updateFlag := True\<rparr>
    \<or> e = sampleEnv\<lparr>args := [''v1'']\<rparr>"
  shows "parseRemoteURL e
      = Inr (\<lparr>Host = ''github.com'', Path = ''/owner/repo'',
              String = ''https://git@github.com/owner/repo''\<rparr>, ''owner'', ''repo'')"
    and "restoreState e sampleFiles = Inr sampleState"
    and "restoreCache e sampleFiles
      = Inr (sampleState, ''/work/.github-commit-status/cache'', sampleFiles)"
    and "retrieveAPIToken e \<lparr>Host = ''github.com'', Path = ''/owner/repo'',
              String = ''https://git@github.com/owner/repo''\<rparr> = Inr ''netrc-secret''"
    and "runGit e [''config'', ''--get-urlmatch'', ''github.token'',
              ''https://git@github.com/owner/repo''] = Inr []"
    and "cacheFilePath e = Inr ''/work/.github-commit-status/cache''"
    and "fetchStatus e \<lparr>Host = ''github.com'', Path = ''/owner/repo'',
              String = ''https://git@github.com/owner/repo''\<rparr> ''owner'' ''repo'' revision token
      = (Inr \<lparr>Status = ''success'', LastModified = 1006\<rparr>,
         [\<lparr>oauthToken = (if token \<noteq> [] then Some token else None),
           insecureSkipVerify = False, baseURL = None,
           owner = ''owner'', repo = ''repo'', ref = revision\<rparr>])"
    and "createErr e p = None" and "encodeErr e = None" and "jsonEncode e state = ''saved''"
  using assms
  by (auto simp: updateFlag_irrelevant cachedFlag_irrelevant args_irrelevant sample_restore
      sample_parseRemoteURL sample_retrieveAPIToken sample_git_token sample_fetchStatus
      sample_cacheFilePath sample_save)

lemma sample_live_runs:
  fixes e :: env
  assumes "e = sampleEnv\<lparr>updateFlag := True\<rparr> \<or> e = sampleEnv\<lparr>cachedFlag := True, updateFlag := True\<rparr>"
  shows "main_part_001 e sampleFiles
      = finish [ChangeColor Green, Print markSuccess, ResetColor]
          [\<lparr>oauthToken = Some ''netrc-secret'', insecureSkipVerify = False,
            baseURL = None, owner = ''owner'', repo = ''repo'', ref = ''abc123''\<rparr>]
          (sampleFiles(''/work/.github-commit-status/cache'' \<mapsto> ''saved''))"
    and "main_part_000 e sampleFiles
      = finish [ChangeColor Green, Print markSuccess, ResetColor]
          [\<lparr>oauthToken = Some ''netrc-secret'', insecureSkipVerify = False,
            baseURL = None, owner = ''owner'', repo = ''repo'', ref = ''abc123''\<rparr>]
          (sampleFiles(''/work/.github-commit-status/cache'' \<mapsto> ''saved''))"
    and "main_go e sampleFiles
      = finish [ChangeColor Green, Print markSuccess, ResetColor]
          [\<lparr>oauthToken = None, insecureSkipVerify = False,
            baseURL = None, owner = ''owner'', repo = ''repo'', ref = ''abc123''\<rparr>]
          (sampleFiles(''/work/.github-commit-status/cache'' \<mapsto> ''saved''))"
proof -
  have u: "updateFlag e" using assms by auto
  have r: "targetRevision e = Inr ''abc123''"
    using assms by (auto simp: updateFlag_irrelevant cachedFlag_irrelevant sample_targetRevision)
  have a: "e = sampleEnv\<lparr>updateFlag := True\<rparr> \<or> e = sampleEnv\<lparr>cachedFlag := True, updateFlag := True\<rparr>
    \<or> e = sampleEnv\<lparr>args := [''v1'']\<rparr>"
    using assms by blast
  note f = sample_live_facts [OF a]
  show "main_part_001 e sampleFiles
      = finish [ChangeColor Green, Print markSuccess, ResetColor]
          [\<lparr>oauthToken = Some ''netrc-secret'', insecureSkipVerify = False,
            baseURL = None, owner = ''owner'', repo = ''repo'', ref = ''abc123''\<rparr>]
          (sampleFiles(''/work/.github-commit-status/cache'' \<mapsto> ''saved''))"
    using lookup_part_001_success [OF f(1) f(4) f(7) f(6) f(8) f(9),
        where fs = sampleFiles and state = sampleState and revision = "''abc123''"]
    by (simp add: main_under_update(1) [OF u] r f printStatus_marks sample_save)
  show "main_part_000 e sampleFiles
      = finish [ChangeColor Green, Print markSuccess, ResetColor]
          [\<lparr>oauthToken = Some ''netrc-secret'', insecureSkipVerify = False,
            baseURL = None, owner = ''owner'', repo = ''repo'', ref = ''abc123''\<rparr>]
          (sampleFiles(''/work/.github-commit-status/cache'' \<mapsto> ''saved''))"
    using lookup_part_000_success [OF f(1) f(4) f(7) f(9), where fs = sampleFiles
        and revision = "''abc123''" and cache = sampleState
        and cacheFile = "''/work/.github-commit-status/cache''"]
    by (simp add: main_under_update(2) [OF u] r f printStatus_marks sample_save)
  show "main_go e sampleFiles
      = finish [ChangeColor Green, Print markSuccess, ResetColor]
          [\<lparr>oauthToken = None, insecureSkipVerify = False,
            baseURL = None, owner = ''owner'', repo = ''repo'', ref = ''abc123''\<rparr>]
          (sampleFiles(''/work/.github-commit-status/cache'' \<mapsto> ''saved''))"
    using lookup_main_go_success [OF f(1) _ f(7) f(9), where token = "[]"
        and revision = "''abc123''" and fs = sampleFiles and cache = sampleState
        and cacheFile = "''/work/.github-commit-status/cache''"]
    by (simp add: main_under_update(3) [OF u] r f printStatus_marks sample_save)
qed

theorem live_lookup_frame_witness:
  "(\<exists>thisStatus. filesAfter (main_part_001 (sampleEnv\<lparr>updateFlag := True\<rparr>) sampleFiles)
      = sampleFiles(''/work/.github-commit-status/cache'' \<mapsto>
          jsonEncode (sampleEnv\<lparr>updateFlag := True\<rparr>)
            (putRevision sampleState ''abc123'' thisStatus)))
   \<and> (\<exists>thisStatus. filesAfter (main_part_000 (sampleEnv\<lparr>updateFlag := True\<rparr>) sampleFiles)
      = sampleFiles(''/work/.github-commit-status/cache'' \<mapsto>
          jsonEncode (sampleEnv\<lparr>updateFlag := True\<rparr>)
            (putRevision sampleState ''abc123'' thisStatus)))
   \<and> (\<exists>thisStatus. filesAfter (main_go (sampleEnv\<lparr>updateFlag := True\<rparr>) sampleFiles)
      = sampleFiles(''/work/.github-commit-status/cache'' \<mapsto>
          jsonEncode (sampleEnv\<lparr>updateFlag := True\<rparr>)
            (putRevision sampleState ''abc123'' thisStatus)))
   \<and> lookupRevision (putRevision sampleState ''abc123''
          \<lparr>Status = ''success'', LastModified = 1006\<rparr>) ''def456''
       = \<lparr>Status = ''success'', LastModified = 900\<rparr>
   \<and> lookupRevision (putRevision sampleState ''abc123''
          \<lparr>Status = ''success'', LastModified = 1006\<rparr>) ''abc123''
       = \<lparr>Status = ''success'', LastModified = 1006\<rparr>"
proof -
  let ?e = "sampleEnv\<lparr>updateFlag := True\<rparr>"
  let ?p = "''/work/.github-commit-status/cache''"
  have r: "targetRevision ?e = Inr ''abc123''"
    by (simp add: updateFlag_irrelevant sample_targetRevision)
  have a: "?e = sampleEnv\<lparr>updateFlag := True\<rparr> \<or> ?e = sampleEnv\<lparr>cachedFlag := True, updateFlag := True\<rparr>
    \<or> ?e = sampleEnv\<lparr>args := [''v1'']\<rparr>"
    by simp
  have b: "?e = sampleEnv\<lparr>updateFlag := True\<rparr> \<or> ?e = sampleEnv\<lparr>cachedFlag := True, updateFlag := True\<rparr>"
    by simp
  have d: "lookupRevision sampleState ''def456'' = \<lparr>Status = ''success'', LastModified = 900\<rparr>"
    by (simp add: lookupRevision_def sampleState_def index_def)
  have l: "lookupRevision (putRevision sampleState ''abc123''
          \<lparr>Status = ''success'', LastModified = 1006\<rparr>) ''abc123''
       = \<lparr>Status = ''success'', LastModified = 1006\<rparr>"
    by (simp add: lookupRevision_putRevision)
  show ?thesis
    using live_lookup_frame [OF r, where fs = sampleFiles and state = sampleState and p = ?p
        and cache = sampleState and cacheFile = ?p and ?fs1.0 = sampleFiles
        and thisStatus = "\<lparr>Status = ''success'', LastModified = 1006\<rparr>"
        and k = "''def456''"]
      sample_live_facts(2,3,6) [OF a] sample_live_runs [OF b] d l
    by (simp add: finish_def)
qed

theorem update_overrides_cached_witness:
  "main_part_001 (sampleEnv\<lparr>cachedFlag := True, updateFlag := True\<rparr>) sampleFiles
     = main_part_001 (sampleEnv\<lparr>updateFlag := True, cachedFlag := False\<rparr>) sampleFiles
   \<and> stdout (main_part_001 (sampleEnv\<lparr>cachedFlag := True, updateFlag := True\<rparr>) sampleFiles)
     = [ChangeColor Green, Print markSuccess, ResetColor]
   \<and> requests (main_part_001 (sampleEnv\<lparr>cachedFlag := True, updateFlag := True\<rparr>) sampleFiles)
     = [\<lparr>oauthToken = Some ''netrc-secret'', insecureSkipVerify = False,
         baseURL = None, owner = ''owner'', repo = ''repo'', ref = ''abc123''\<rparr>]
   \<and> filesAfter (main_part_001 (sampleEnv\<lparr>cachedFlag := True, updateFlag := True\<rparr>) sampleFiles)
       ''/work/.github-commit-status/cache'' = Some ''saved''
   \<and> filesAfter (main_part_000 (sampleEnv\<lparr>cachedFlag := True, updateFlag := True\<rparr>) sampleFiles)
       ''/work/.github-commit-status/cache'' = Some ''saved''
   \<and> filesAfter (main_go (sampleEnv\<lparr>cachedFlag := True, updateFlag := True\<rparr>) sampleFiles)
       ''/work/.github-commit-status/cache'' = Some ''saved''"
proof -
  let ?e = "sampleEnv\<lparr>cachedFlag := True, updateFlag := True\<rparr>"
  let ?u = "\<lparr>Host = ''github.com'', Path = ''/owner/repo'',
    String = ''https://git@github.com/owner/repo''\<rparr>"
  let ?p = "''/work/.github-commit-status/cache''"
  let ?t = "\<lparr>Status = ''success'', LastModified = 1006\<rparr>"
  have c: "cachedFlag ?e" and u: "updateFlag ?e"
    by simp_all
  have r: "targetRevision ?e = Inr ''abc123''"
    by (simp add: updateFlag_irrelevant cachedFlag_irrelevant sample_targetRevision)
  have a: "?e = sampleEnv\<lparr>updateFlag := True\<rparr> \<or> ?e = sampleEnv\<lparr>cachedFlag := True, updateFlag := True\<rparr>
    \<or> ?e = sampleEnv\<lparr>args := [''v1'']\<rparr>"
    by simp
  note f = sample_live_facts [OF a]
  have 1: "main_part_001 ?e sampleFiles = main_part_001 (?e\<lparr>cachedFlag := False\<rparr>) sampleFiles"
    using update_overrides_cached [OF c u, where fs = sampleFiles] by blast
  have 2: "stdout (main_part_001 ?e sampleFiles) = printStatus ''success''
      \<and> requests (main_part_001 ?e sampleFiles)
          = [\<lparr>oauthToken = Some ''netrc-secret'', insecureSkipVerify = False,
              baseURL = None, owner = ''owner'', repo = ''repo'', ref = ''abc123''\<rparr>]
      \<and> filesAfter (main_part_001 ?e sampleFiles) ?p = Some ''saved''
      \<and> filesAfter (main_part_000 ?e sampleFiles) ?p = Some ''saved''"
    using update_overrides_cached [OF c u, where revision = "''abc123''" and fs = sampleFiles
        and state = sampleState and cache = sampleState and cacheFile = ?p
        and ?fs1.0 = sampleFiles and u = ?u and user = "''owner''" and repository = "''repo''"
        and token = "''netrc-secret''" and thisStatus = ?t and p = ?p
        and reqs = "[\<lparr>oauthToken = Some ''netrc-secret'', insecureSkipVerify = False,
              baseURL = None, owner = ''owner'', repo = ''repo'', ref = ''abc123''\<rparr>]"] r f
    by auto
  have 3: "filesAfter (main_go ?e sampleFiles) ?p = Some ''saved''"
    using update_overrides_cached [OF c u, where revision = "''abc123''" and fs = sampleFiles
        and state = sampleState and cache = sampleState and cacheFile = ?p
        and ?fs1.0 = sampleFiles and u = ?u and user = "''owner''" and repository = "''repo''"
        and token = "[]" and thisStatus = ?t and p = ?p
        and reqs = "[\<lparr>oauthToken = None, insecureSkipVerify = False,
              baseURL = None, owner = ''owner'', repo = ''repo'', ref = ''abc123''\<rparr>]"] r f
    by auto
  show ?thesis
    using 1 2 3 by (simp add: printStatus_marks)
qed

text \<open>
  C8. In part_001 a status outside the table has the configuration of the unknown status
  (\<open>confOf_unrecognized\<close>, \<open>unrecognized_part_001\<close>): the mark \<^verbatim>\<open>?\<close> and 30 seconds. In
  main.go and part_000 \<open>printStatusSwitch\<close> prints \<^verbatim>\<open>?\<close> for it as well, but the time to
  live is the zero value of the map \<open>cacheExpirationSeconds\<close>: an entry with the status
  \<^verbatim>\<open>error\<close> stored at 1000 is not valid at 1005, where an entry with the empty status is.
  On the same cache file part_001 prints \<^verbatim>\<open>?\<close> without a request, while main.go and
  part_000 query the API.
\<close>

theorem unrecognized_status_expiration:
  "isValidSeconds \<lparr>Status = ''error'', LastModified = 1000\<rparr> 1005 = False
   \<and> isValidSeconds \<lparr>Status = [], LastModified = 1000\<rparr> 1005 = True
   \<and> printStatusSwitch ''error'' = [Print ''?'']
   \<and> isValidDuration \<lparr>Status = ''error'', LastModified = 1000\<rparr> \<lparr>sec = 62135597805, nsec = 0\<rparr>
       = True
   \<and> printStatus ''error'' = [ChangeColor None_color, Print ''?'', ResetColor]
   \<and> main_part_001 (sampleEnv\<lparr>args := [''v1'']\<rparr>) sampleFiles
       = \<lparr>exitCode = 0, stdout = [ChangeColor None_color, Print ''?'', ResetColor],
          stderr = None, requests = [], filesAfter = sampleFiles\<rparr>
   \<and> main_go (sampleEnv\<lparr>args := [''v1'']\<rparr>) sampleFiles
       = \<lparr>exitCode = 0, stdout = [ChangeColor Green, Print markSuccess, ResetColor],
          stderr = None,
          requests = [\<lparr>oauthToken = None, insecureSkipVerify = False,
                       baseURL = None, owner = ''owner'', repo = ''repo'', ref = ''err789''\<rparr>],
          filesAfter = sampleFiles(''/work/.github-commit-status/cache'' \<mapsto> ''saved'')\<rparr>
   \<and> main_part_000 (sampleEnv\<lparr>args := [''v1'']\<rparr>) sampleFiles
       = \<lparr>exitCode = 0, stdout = [ChangeColor Green, Print markSuccess, ResetColor],
          stderr = None,
          requests = [\<lparr>oauthToken = Some ''netrc-secret'', insecureSkipVerify = False,
                       baseURL = None, owner = ''owner'', repo = ''repo'', ref = ''err789''\<rparr>],
          filesAfter = sampleFiles(''/work/.github-commit-status/cache'' \<mapsto> ''saved'')\<rparr>"
proof -
  let ?e = "sampleEnv\<lparr>args := [''v1'']\<rparr>"
  let ?p = "''/work/.github-commit-status/cache''"
  have a: "?e = sampleEnv\<lparr>updateFlag := True\<rparr> \<or> ?e = sampleEnv\<lparr>cachedFlag := True, updateFlag := True\<rparr>
    \<or> ?e = sampleEnv\<lparr>args := [''v1'']\<rparr>"
    by simp
  note f = sample_live_facts [OF a]
  have flags: "\<not> updateFlag ?e" "\<not> cachedFlag ?e" "nowAtCheck ?e = \<lparr>sec = 62135597805, nsec = 0\<rparr>"
    by (simp_all add: sampleEnv_def)
  have p: "printStatus ''error'' = [ChangeColor None_color, Print ''?'', ResetColor]"
    by (rule unrecognized_part_001) simp
  have q: "printStatusSwitch ''error'' = [Print ''?'']"
    by (simp add: printStatusSwitch_def statusColors_def markUnknown_def markFailure_def
        markPending_def markSuccess_def)
  have v: "isValidSeconds \<lparr>Status = [], LastModified = 1000\<rparr> 1005"
    by (simp add: isValidSeconds_def expiration_unknown word_sless_alt)
  have 1: "main_part_001 ?e sampleFiles = finish (printStatus ''error'') [] sampleFiles"
    by (simp add: main_part_001_def sample_targetRevision f flags sample_entries sample_valid)
  have 2: "main_go ?e sampleFiles = lookup_main_go ?e sampleFiles ''err789'' sampleState ?p"
    by (simp add: main_go_def sample_targetRevision f flags sample_entries sample_valid
        sample_clock)
  have 3: "main_part_000 ?e sampleFiles = lookup_part_000 ?e sampleFiles ''err789'' sampleState ?p"
    by (simp add: main_part_000_def sample_targetRevision f flags sample_entries sample_valid
        sample_clock)
  have 4: "lookup_main_go ?e sampleFiles ''err789'' sampleState ?p
      = finish (printStatusSwitch ''success'')
          [\<lparr>oauthToken = None, insecureSkipVerify = False,
            baseURL = None, owner = ''owner'', repo = ''repo'', ref = ''err789''\<rparr>]
          (sampleFiles(?p \<mapsto> ''saved''))"
    using lookup_main_go_success [OF f(1) _ f(7) f(9), where token = "[]"
        and revision = "''err789''" and fs = sampleFiles and cache = sampleState
        and cacheFile = ?p]
    by (simp add: f sample_save)
  have 5: "lookup_part_000 ?e sampleFiles ''err789'' sampleState ?p
      = finish (printStatusSwitch ''success'')
          [\<lparr>oauthToken = Some ''netrc-secret'', insecureSkipVerify = False,
            baseURL = None, owner = ''owner'', repo = ''repo'', ref = ''err789''\<rparr>]
          (sampleFiles(?p \<mapsto> ''saved''))"
    using lookup_part_000_success [OF f(1) f(4) f(7) f(9), where fs = sampleFiles
        and revision = "''err789''" and cache = sampleState and cacheFile = ?p]
    by (simp add: f sample_save)
  show ?thesis
    by (simp add: 1 2 3 4 5 p q v sample_valid finish_def printStatus_marks)
qed

end
